theory Spec2Isabelle
  imports Main "HOL-Library.Sublist"
begin

chapter \<open>create-joji-app: a project scaffolder\<close>

text \<open>
  The program asks for a location, a project name and two yes/no choices, creates a
  directory tree, writes a \<^verbatim>\<open>package.json\<close>, four configuration files and four source
  files, optionally runs \<^verbatim>\<open>npm install\<close>, runs three git commands and prints a success
  message.

  The development follows the latest of the three versions of the command, the
  asynchronous one (with \<^verbatim>\<open>execAsync\<close>). The synchronous version before it has the same
  prompts, the same control flow and the same calls, with \<^verbatim>\<open>fs.ensureDirSync\<close>,
  \<^verbatim>\<open>fs.writeFileSync\<close> and \<^verbatim>\<open>execSync\<close>; two of its templates differ by a few characters.
  The earliest version has neither the location prompt nor the loop over names, the
  install or git: it joins the name to the current directory, returns without
  scaffolding when that path exists, and runs the same four scaffolding steps otherwise.

  Strings are lists of bytes: a JavaScript string is modelled by its UTF-8 encoding, which
  is what \<^verbatim>\<open>fs.writeFile\<close> puts on disk. Every character the program tests or compares
  is ASCII, where a byte and a UTF-16 code unit coincide.
\<close>

section \<open>Regular expressions\<close>

text \<open>
  The two regular expressions of the program are \<^verbatim>\<open>/^[a-z0-9-_]+$/\<close> and \<^verbatim>\<open>/\\/g\<close>.
  A pattern is a term of \<open>regex\<close>; \<open>ends r s i\<close> lists the positions where a match of \<open>r\<close>
  that starts at position \<open>i\<close> of \<open>s\<close> can end. Without the \<^verbatim>\<open>m\<close> flag \<^verbatim>\<open>^\<close> matches at
  position 0 only and \<^verbatim>\<open>$\<close> at the end of the input only.
\<close>

datatype regex =
  Bol
| Eol
| Class \<open>(char \<times> char) list\<close>
| Plus regex
| Seq regex regex

text \<open>
  The body of a character class, read left to right as ECMAScript's \<^verbatim>\<open>ClassRanges\<close>:
  an atom followed by \<^verbatim>\<open>-\<close> and another atom is a range, any other atom stands for
  itself. In \<^verbatim>\<open>a-z0-9-_\<close> the third hyphen follows a complete range, so it is an atom.
\<close>

fun class_ranges :: \<open>string \<Rightarrow> (char \<times> char) list\<close> where
  \<open>class_ranges (a # d # b # rest) =
     (if d = CHR ''-'' then (a, b) # class_ranges rest
      else (a, a) # class_ranges (d # b # rest))\<close>
| \<open>class_ranges (a # rest) = (a, a) # class_ranges rest\<close>
| \<open>class_ranges [] = []\<close>

definition code_unit :: \<open>char \<Rightarrow> nat\<close> where
  \<open>code_unit c = of_char c\<close>

definition in_class :: \<open>(char \<times> char) list \<Rightarrow> char \<Rightarrow> bool\<close> where
  \<open>in_class rs c = list_ex (\<lambda>(lo, hi). code_unit lo \<le> code_unit c \<and> code_unit c \<le> code_unit hi) rs\<close>

text \<open>
  One or more repetitions of a step \<open>f\<close>. A repetition that consumes nothing is not
  repeated again, so at most \<open>length s\<close> repetitions follow the first one.
\<close>

fun plus_from :: \<open>nat \<Rightarrow> (nat \<Rightarrow> nat list) \<Rightarrow> nat \<Rightarrow> nat list\<close> where
  \<open>plus_from 0 f i = []\<close>
| \<open>plus_from (Suc n) f i = concat (map (\<lambda>j. j # (if i < j then plus_from n f j else [])) (f i))\<close>

primrec ends :: \<open>regex \<Rightarrow> string \<Rightarrow> nat \<Rightarrow> nat list\<close> where
  \<open>ends Bol s i = (if i = 0 then [i] else [])\<close>
| \<open>ends Eol s i = (if i = length s then [i] else [])\<close>
| \<open>ends (Class rs) s i = (if i < length s \<and> in_class rs (s ! i) then [Suc i] else [])\<close>
| \<open>ends (Plus r) s i = plus_from (Suc (length s)) (ends r s) i\<close>
| \<open>ends (Seq a b) s i = concat (map (ends b s) (ends a s i))\<close>

text \<open>\<^verbatim>\<open>RegExp.prototype.test\<close>: is there a match starting anywhere in the input?\<close>

definition test :: \<open>regex \<Rightarrow> string \<Rightarrow> bool\<close> where
  \<open>test r s = list_ex (\<lambda>i. ends r s i \<noteq> []) [0 ..< Suc (length s)]\<close>

text \<open>\<^verbatim>\<open>input.replace(/\\/g, '/')\<close>: every backslash becomes a forward slash.\<close>

definition replace_backslashes :: \<open>string \<Rightarrow> string\<close> where
  \<open>replace_backslashes input = map (\<lambda>c. if c = CHR 0x5C then CHR ''/'' else c) input\<close>

section \<open>The prompts' validators\<close>

text \<open>A validator returns \<^verbatim>\<open>true\<close> or the message to show before asking again.\<close>

datatype validation = Accepted | Rejected string

definition projectName_regex :: regex where
  \<open>projectName_regex = Seq Bol (Seq (Plus (Class (class_ranges ''a-z0-9-_''))) Eol)\<close>

definition projectName_message :: string where
  \<open>projectName_message =
     ''Project name can only contain lowercase letters, numbers, hyphens, and underscores''\<close>

definition validate_projectName :: \<open>string \<Rightarrow> validation\<close> where
  \<open>validate_projectName input =
     (if test projectName_regex input then Accepted else Rejected projectName_message)\<close>

text \<open>
  The reading of the pattern in words: a lowercase letter, a digit, a hyphen or an
  underscore; and a name made of one or more of them.
\<close>

definition name_char :: \<open>char \<Rightarrow> bool\<close> where
  \<open>name_char c =
     (code_unit CHR ''a'' \<le> code_unit c \<and> code_unit c \<le> code_unit CHR ''z''
      \<or> code_unit CHR ''0'' \<le> code_unit c \<and> code_unit c \<le> code_unit CHR ''9''
      \<or> c = CHR ''-'' \<or> c = CHR ''_'')\<close>

definition plain_name :: \<open>string \<Rightarrow> bool\<close> where
  \<open>plain_name s = (s \<noteq> [] \<and> list_all name_char s)\<close>

section \<open>The file system, the shell and the terminal\<close>

text \<open>
  What the program acts on is a state \<open>world\<close>: the directories and the files on disk,
  the commands handed to the shell so far, and the lines printed so far. The functions of
  Node that the program calls, and that are not part of it, are parameters \<open>env\<close> of
  the model:
  \<^item> \<open>path_join\<close> is \<^verbatim>\<open>path.join\<close> of the platform;
  \<^item> \<open>ancestors\<close> lists the directories above a path, the nearest first: what
    \<^verbatim>\<open>path.dirname\<close> gives when applied again and again (the root left out: it always
    exists);
  \<^item> \<open>refuses\<close> says which operations the operating system makes fail (no permission,
    disk full, a write below a directory that is missing, no \<^verbatim>\<open>git\<close> installed, ...).
    The program attempts no operation again once it has failed or succeeded, so a
    predicate on operations describes every way a run can fail;
  \<^item> \<open>shell\<close> is what a command does to the directories and files.
\<close>

type_synonym path = string

datatype operation = MkDir path | WriteFile path | Run string path

datatype error = Failed operation

datatype line = Log string | Spin string | Succeed string | Fail string | Warn string

record world =
  dirs :: \<open>path set\<close>
  files :: \<open>path \<rightharpoonup> string\<close>
  execs :: \<open>(string \<times> path) list\<close>
  console :: \<open>line list\<close>

record env =
  path_join :: \<open>path \<Rightarrow> path \<Rightarrow> path\<close>
  ancestors :: \<open>path \<Rightarrow> path list\<close>
  refuses :: \<open>operation \<Rightarrow> bool\<close>
  shell :: \<open>string \<Rightarrow> path \<Rightarrow> path set \<times> (path \<rightharpoonup> string) \<Rightarrow> path set \<times> (path \<rightharpoonup> string)\<close>

text \<open>
  A step of the program takes the world to a new world and either completes or throws.
  The world a throwing step leaves behind is kept: nothing is undone by an exception.
\<close>

datatype outcome = Done | Threw error

type_synonym step = \<open>world \<Rightarrow> outcome \<times> world\<close>

definition skip :: step where
  \<open>skip w = (Done, w)\<close>

definition throw :: \<open>error \<Rightarrow> step\<close> where
  \<open>throw x w = (Threw x, w)\<close>

definition and_then :: \<open>step \<Rightarrow> step \<Rightarrow> step\<close> where
  \<open>and_then f g w = (case f w of (Done, w') \<Rightarrow> g w' | (Threw x, w') \<Rightarrow> (Threw x, w'))\<close>

text \<open>Statements one after the other, each awaited before the next starts.\<close>

fun in_sequence :: \<open>step list \<Rightarrow> step\<close> where
  \<open>in_sequence [] = skip\<close>
| \<open>in_sequence (f # fs) = and_then f (in_sequence fs)\<close>

text \<open>\<^verbatim>\<open>try { f } catch (error) { h error }\<close>\<close>

definition try_catch :: \<open>step \<Rightarrow> (error \<Rightarrow> step) \<Rightarrow> step\<close> where
  \<open>try_catch f h w = (case f w of (Done, w') \<Rightarrow> (Done, w') | (Threw x, w') \<Rightarrow> h x w')\<close>

text \<open>
  \<^verbatim>\<open>await Promise.all([...])\<close>: every promise of the array is started before any is
  awaited, so every operation is attempted, also after one of them has failed; the whole
  rejects when one does. The operations are modelled in the order of the array (here they
  write different files), and the error reported is the first of the array that failed.
  Every write of the array is taken as settled when the step returns: a write is either
  refused and leaves the file as it was, or has put the whole content there.
\<close>

fun promise_all :: \<open>step list \<Rightarrow> step\<close> where
  \<open>promise_all [] w = (Done, w)\<close>
| \<open>promise_all (f # fs) w =
     (case f w of (r, w1) \<Rightarrow>
        (case promise_all fs w1 of (r', w2) \<Rightarrow>
           ((case r of Done \<Rightarrow> r' | Threw x \<Rightarrow> Threw x), w2)))\<close>

text \<open>Console output. The styling (\<^verbatim>\<open>chalk\<close>, \<^verbatim>\<open>rainbow\<close>) is left out: a line is its text.\<close>

definition print :: \<open>line \<Rightarrow> step\<close> where
  \<open>print l w = (Done, w\<lparr>console := console w @ [l]\<rparr>)\<close>

text \<open>\<^verbatim>\<open>fs.existsSync\<close> is true of a path that exists, a directory or a file.\<close>

definition existsSync :: \<open>path \<Rightarrow> world \<Rightarrow> bool\<close> where
  \<open>existsSync p w = (p \<in> dirs w \<or> p \<in> dom (files w))\<close>

text \<open>
  \<^verbatim>\<open>fs.ensureDir\<close> is \<^verbatim>\<open>mkdir -p\<close>. Going down from the top of the way to the path, it
  is content with every directory that is there already and makes each one that is not,
  the path itself being the last. It fails at the first that is a file, or that the
  system refuses to make, and the directories it has made above that one stay.
\<close>

definition way_to :: \<open>env \<Rightarrow> path \<Rightarrow> path list\<close> where
  \<open>way_to e p = rev (ancestors e p) @ [p]\<close>

fun make_dirs :: \<open>env \<Rightarrow> path list \<Rightarrow> step\<close> where
  \<open>make_dirs e [] w = (Done, w)\<close>
| \<open>make_dirs e (d # ds) w =
     (if d \<in> dirs w then make_dirs e ds w
      else if d \<in> dom (files w) \<or> refuses e (MkDir d) then (Threw (Failed (MkDir d)), w)
      else make_dirs e ds (w\<lparr>dirs := insert d (dirs w)\<rparr>))\<close>

definition ensureDir :: \<open>env \<Rightarrow> path \<Rightarrow> step\<close> where
  \<open>ensureDir e p = make_dirs e (way_to e p)\<close>

text \<open>\<^verbatim>\<open>fs.writeFile\<close> creates the file or replaces its content; it fails on a directory.\<close>

definition writeFile :: \<open>env \<Rightarrow> path \<Rightarrow> string \<Rightarrow> step\<close> where
  \<open>writeFile e p content w =
     (if refuses e (WriteFile p) \<or> p \<in> dirs w then (Threw (Failed (WriteFile p)), w)
      else (Done, w\<lparr>files := (files w)(p \<mapsto> content)\<rparr>))\<close>

text \<open>
  \<^verbatim>\<open>execAsync(command, { cwd })\<close>: the command is handed to the shell, does to the disk
  what it does, and the promise rejects when the command fails.
\<close>

definition execAsync :: \<open>env \<Rightarrow> string \<Rightarrow> path \<Rightarrow> step\<close> where
  \<open>execAsync e command cwd w =
     (let disk = shell e command cwd (dirs w, files w);
          w' = w\<lparr>dirs := fst disk, files := snd disk, execs := execs w @ [(command, cwd)]\<rparr>
      in if refuses e (Run command cwd) then (Threw (Failed (Run command cwd)), w') else (Done, w'))\<close>

section \<open>The prompts\<close>

text \<open>
  The user is what they type: the lines entered at the location prompt, the lines entered
  at the name prompts, and the two confirmations. An \<^verbatim>\<open>input\<close> prompt of inquirer takes
  an empty line for the default, hands the answer to \<^verbatim>\<open>validate\<close> and asks again until
  the answer is accepted. A user whose lines run out before an answer is accepted never
  gets past the prompt: \<open>None\<close>.
\<close>

record user =
  location_lines :: \<open>string list\<close>
  name_lines :: \<open>string list\<close>
  router_answer :: bool
  install_answer :: bool

fun ask :: \<open>(string \<Rightarrow> validation) \<Rightarrow> string \<Rightarrow> string list \<Rightarrow> (string \<times> string list) option\<close> where
  \<open>ask validate dflt [] = None\<close>
| \<open>ask validate dflt (l # ls) =
     (let input = (if l = [] then dflt else l)
      in if validate input = Accepted then Some (input, ls) else ask validate dflt ls)\<close>

definition projectLocation_message :: string where
  \<open>projectLocation_message = ''That directory does not exist. Please enter a valid path.''\<close>

definition validate_projectLocation :: \<open>world \<Rightarrow> string \<Rightarrow> validation\<close> where
  \<open>validate_projectLocation w input =
     (let normalizedPath = replace_backslashes input
      in if existsSync normalizedPath w then Accepted else Rejected projectLocation_message)\<close>

definition default_location :: string where
  \<open>default_location = ''C:/Users/JojoW/Documents/Coding''\<close>

text \<open>\<^verbatim>\<open>projectName || 'my-react-app'\<close>: the command-line argument, unless absent or empty.\<close>

definition default_name :: \<open>string option \<Rightarrow> string\<close> where
  \<open>default_name arg = (case arg of None \<Rightarrow> ''my-react-app'' | Some n \<Rightarrow> if n = [] then ''my-react-app'' else n)\<close>

definition exists_message :: \<open>string \<Rightarrow> string\<close> where
  \<open>exists_message name =
     [CHR 0x0A, CHR 0xE2, CHR 0x80, CHR 0x9A, CHR 0xC3, CHR 0xB9, CHR 0xC3, CHR 0xA5] @
     '' Directory "'' @ name @ ''" already exists! Please choose another name.\<newline>''\<close>

text \<open>
  The loop \<^verbatim>\<open>while (!nameIsValid)\<close>: ask for a name, join it to the location, and go round
  again when that path exists. It returns the name and the project path.
\<close>

function name_loop ::
  \<open>env \<Rightarrow> string \<Rightarrow> path \<Rightarrow> string list \<Rightarrow> world \<Rightarrow> (string \<times> path) option \<times> world\<close> where
  \<open>name_loop e dflt normalizedLocation ls w =
     (case ask validate_projectName dflt ls of
        None \<Rightarrow> (None, w)
      | Some (name, rest) \<Rightarrow>
          (let projectPath = path_join e normalizedLocation name
           in if existsSync projectPath w
              then name_loop e dflt normalizedLocation rest (snd (print (Log (exists_message name)) w))
              else (Some (name, projectPath), w)))\<close>
  by pat_completeness auto
termination
proof (relation \<open>measure (\<lambda>(e, dflt, loc, ls, w). length ls)\<close>)
  show \<open>wf (measure (\<lambda>(e, dflt, loc, ls, w). length ls))\<close>
    by simp
next
  fix e :: env and dflt normalizedLocation :: string and ls :: \<open>string list\<close> and w :: world
    and x2 :: \<open>string \<times> string list\<close> and name :: string and rest :: \<open>string list\<close>
    and projectPath :: path
  assume a: \<open>ask validate_projectName dflt ls = Some x2\<close> \<open>(name, rest) = x2\<close>
  have \<open>ask v d xs = Some (n, r) \<Longrightarrow> length r < length xs\<close> for v d xs n r
    by (induction xs) (auto simp: Let_def split: if_splits)
  with a have \<open>length rest < length ls\<close>
    by metis
  then show \<open>((e, dflt, normalizedLocation, rest, snd (print (Log (exists_message name)) w)),
      (e, dflt, normalizedLocation, ls, w)) \<in> measure (\<lambda>(e, dflt, loc, ls, w). length ls)\<close>
    by simp
qed

declare name_loop.simps [simp del]

record answers =
  projectLocation :: string
  projectName :: string
  useRouter :: bool
  installNow :: bool

section \<open>JSON\<close>

text \<open>
  The values \<^verbatim>\<open>createPackageJson\<close> builds: strings, booleans and objects, whose keys keep
  their insertion order. \<open>stringify\<close> is \<^verbatim>\<open>JSON.stringify(value, null, 2)\<close>.
\<close>

datatype json = JString string | JBool bool | JObject \<open>(string \<times> json) list\<close>

definition hex_digit :: \<open>nat \<Rightarrow> char\<close> where
  \<open>hex_digit n = ''0123456789abcdef'' ! (n mod 16)\<close>

definition escape_char :: \<open>char \<Rightarrow> string\<close> where
  \<open>escape_char c =
     (if c = CHR 0x08 then [CHR 0x5C, CHR ''b'']
      else if c = CHR 0x09 then [CHR 0x5C, CHR ''t'']
      else if c = CHR 0x0A then [CHR 0x5C, CHR ''n'']
      else if c = CHR 0x0C then [CHR 0x5C, CHR ''f'']
      else if c = CHR 0x0D then [CHR 0x5C, CHR ''r'']
      else if c = CHR 0x22 then [CHR 0x5C, CHR 0x22]
      else if c = CHR 0x5C then [CHR 0x5C, CHR 0x5C]
      else if code_unit c < 32
        then [CHR 0x5C, CHR ''u'', CHR ''0'', CHR ''0'',
              hex_digit (code_unit c div 16), hex_digit (code_unit c mod 16)]
      else [c])\<close>

definition quote :: \<open>string \<Rightarrow> string\<close> where
  \<open>quote s = [CHR 0x22] @ concat (map escape_char s) @ [CHR 0x22]\<close>

fun intercalate :: \<open>string \<Rightarrow> string list \<Rightarrow> string\<close> where
  \<open>intercalate sep [] = []\<close>
| \<open>intercalate sep [x] = x\<close>
| \<open>intercalate sep (x # y # ys) = x @ sep @ intercalate sep (y # ys)\<close>

fun serialize :: \<open>string \<Rightarrow> json \<Rightarrow> string\<close> where
  \<open>serialize indent (JString s) = quote s\<close>
| \<open>serialize indent (JBool b) = (if b then ''true'' else ''false'')\<close>
| \<open>serialize indent (JObject members) =
     (if members = [] then ''{}''
      else ''{\<newline>'' @ indent @ ''  '' @
           intercalate ('',\<newline>'' @ indent @ ''  '')
             (map (\<lambda>m. quote (fst m) @ '': '' @ serialize (indent @ ''  '') (snd m)) members) @
           ''\<newline>'' @ indent @ ''}'')\<close>

definition stringify :: \<open>json \<Rightarrow> string\<close> where
  \<open>stringify v = serialize [] v\<close>

text \<open>Reading a member of an object: the last one with the key, as in JavaScript.\<close>

definition json_member :: \<open>json \<Rightarrow> string \<Rightarrow> json option\<close> where
  \<open>json_member v key = (case v of JObject members \<Rightarrow> map_of (rev members) key | _ \<Rightarrow> None)\<close>

section \<open>The generated files\<close>

definition dependencies :: \<open>answers \<Rightarrow> (string \<times> json) list\<close> where
  \<open>dependencies a =
     [(''react'', JString ''^18.3.1''),
      (''react-dom'', JString ''^18.3.1'')] @
     (if useRouter a then [(''react-router-dom'', JString ''^6.26.0'')] else [])\<close>

definition devDependencies :: \<open>(string \<times> json) list\<close> where
  \<open>devDependencies =
     [(''@vitejs/plugin-react'', JString ''^4.3.1''),
      (''autoprefixer'', JString ''^10.4.20''),
      (''postcss'', JString ''^8.4.41''),
      (''tailwindcss'', JString ''^3.4.10''),
      (''vite'', JString ''^5.4.1'')]\<close>

definition packageJson :: \<open>answers \<Rightarrow> json\<close> where
  \<open>packageJson a =
     JObject
      [(''name'', JString (projectName a)),
       (''private'', JBool True),
       (''version'', JString ''0.1.0''),
       (''type'', JString ''module''),
       (''scripts'', JObject
          [(''dev'', JString ''vite''),
           (''build'', JString ''vite build''),
           (''preview'', JString ''vite preview'')]),
       (''dependencies'', JObject (dependencies a)),
       (''devDependencies'', JObject devDependencies)]\<close>

definition viteConfig :: string where
  \<open>viteConfig =
     ''import { defineConfig } from 'vite'\<newline>'' @
     ''import react from '@vitejs/plugin-react'\<newline>'' @
     ''\<newline>'' @
     ''export default defineConfig({\<newline>'' @
     ''  plugins: [react()],\<newline>'' @
     ''})\<newline>''\<close>

definition tailwindConfig :: string where
  \<open>tailwindConfig =
     ''/** @type {import('tailwindcss').Config} */\<newline>'' @
     ''export default {\<newline>'' @
     ''  content: [\<newline>'' @
     ''    "./index.html",\<newline>'' @
     ''    "./src/**/*.{js,ts,jsx,tsx}",\<newline>'' @
     ''  ],\<newline>'' @
     ''  theme: {\<newline>'' @
     ''    extend: {},\<newline>'' @
     ''  },\<newline>'' @
     ''  plugins: [],\<newline>'' @
     ''}\<newline>''\<close>

definition postcssConfig :: string where
  \<open>postcssConfig =
     ''export default {\<newline>'' @
     ''  plugins: {\<newline>'' @
     ''    tailwindcss: {},\<newline>'' @
     ''    autoprefixer: {},\<newline>'' @
     ''  },\<newline>'' @
     ''}\<newline>''\<close>

definition gitignore :: string where
  \<open>gitignore =
     ''node_modules\<newline>'' @
     ''dist\<newline>'' @
     ''dist-ssr\<newline>'' @
     ''*.local\<newline>'' @
     ''.DS_Store\<newline>''\<close>

definition indexHtml :: \<open>answers \<Rightarrow> string\<close> where
  \<open>indexHtml a =
     ''<!doctype html>\<newline>'' @
     ''<html lang="en">\<newline>'' @
     ''  <head>\<newline>'' @
     ''    <meta charset="UTF-8" />\<newline>'' @
     ''    <meta name="viewport" content="width=device-width, initial-scale=1.0" />\<newline>'' @
     ''    <title>'' @ projectName a @ ''</title>\<newline>'' @
     ''  </head>\<newline>'' @
     ''  <body>\<newline>'' @
     ''    <div id="root"></div>\<newline>'' @
     ''    <script type="module" src="/src/main.jsx"></script>\<newline>'' @
     ''  </body>\<newline>'' @
     ''</html>\<newline>''\<close>

definition router_import :: string where
  \<open>router_import = ''import { BrowserRouter } from 'react-router-dom'' @ [CHR 0x27]\<close>

definition router_element :: string where
  \<open>router_element = ''<BrowserRouter>\<newline>      <App />\<newline>    </BrowserRouter>''\<close>

definition mainJsx :: \<open>answers \<Rightarrow> string\<close> where
  \<open>mainJsx a =
     ''import { StrictMode } from 'react'\<newline>'' @
     ''import { createRoot } from 'react-dom/client'\<newline>'' @
     (if useRouter a then router_import else []) @ ''\<newline>'' @
     ''import './styles/index.css'\<newline>'' @
     ''import App from './App.jsx'\<newline>'' @
     ''\<newline>'' @
     ''createRoot(document.getElementById('root')).render(\<newline>'' @
     ''  <StrictMode>\<newline>'' @
     ''    '' @ (if useRouter a then router_element else ''<App />'') @ ''\<newline>'' @
     ''  </StrictMode>,\<newline>'' @
     '')\<newline>''\<close>

definition appJsx :: \<open>answers \<Rightarrow> string\<close> where
  \<open>appJsx a =
     ''function App() {\<newline>'' @
     ''  return (\<newline>'' @
     ''    <div className="min-h-screen bg-gradient-to-br from-blue-50 to-indigo-100 flex items-center justify-center p-4">\<newline>'' @
     ''      <div className="bg-white rounded-2xl shadow-xl p-8 max-w-md w-full">\<newline>'' @
     ''        <h1 className="text-4xl font-bold text-gray-800 mb-4">\<newline>'' @
     ''          '' @ projectName a @ ''\<newline>'' @
     ''        </h1>\<newline>'' @
     ''        <p className="text-gray-600 mb-6">\<newline>'' @
     ''          Welcome to your new React + Vite + Tailwind project! '' @
       [CHR 0xEF, CHR 0xA3, CHR 0xBF, CHR 0xC3, CHR 0xBC, CHR 0xC3, CHR 0xB6, CHR 0xC3, CHR 0x84] @ ''\<newline>'' @
     ''        </p>\<newline>'' @
     ''        <button className="w-full bg-blue-600 hover:bg-blue-700 text-white font-medium py-3 px-4 rounded-lg transition-colors">\<newline>'' @
     ''          Get Started\<newline>'' @
     ''        </button>\<newline>'' @
     ''      </div>\<newline>'' @
     ''    </div>\<newline>'' @
     ''  )\<newline>'' @
     ''}\<newline>'' @
     ''\<newline>'' @
     ''export default App\<newline>''\<close>

definition indexCss :: string where
  \<open>indexCss =
     ''@tailwind base\<newline>'' @
     ''@tailwind components\<newline>'' @
     ''@tailwind utilities\<newline>''\<close>

section \<open>The scaffolding steps\<close>

text \<open>
  Each step starts a spinner, does its work inside \<^verbatim>\<open>try\<close>, and in \<^verbatim>\<open>catch\<close> marks the
  spinner failed and throws the error again.
\<close>

definition createProjectStructure :: \<open>env \<Rightarrow> path \<Rightarrow> answers \<Rightarrow> step\<close> where
  \<open>createProjectStructure e projectPath a =
     and_then (print (Spin ''Creating project structure...''))
       (try_catch
          (in_sequence
            [ensureDir e projectPath,
             ensureDir e (path_join e projectPath ''src''),
             ensureDir e (path_join e projectPath ''src/components''),
             ensureDir e (path_join e projectPath ''src/assets''),
             ensureDir e (path_join e projectPath ''src/styles''),
             ensureDir e (path_join e projectPath ''public''),
             if useRouter a then ensureDir e (path_join e projectPath ''src/pages'') else skip,
             print (Succeed ''Project structure created'')])
          (\<lambda>error. and_then (print (Fail ''Failed to create project structure'')) (throw error)))\<close>

definition createPackageJson :: \<open>env \<Rightarrow> path \<Rightarrow> answers \<Rightarrow> step\<close> where
  \<open>createPackageJson e projectPath a =
     and_then (print (Spin ''Creating package.json...''))
       (try_catch
          (in_sequence
            [writeFile e (path_join e projectPath ''package.json'') (stringify (packageJson a)),
             print (Succeed ''package.json created'')])
          (\<lambda>error. and_then (print (Fail ''Failed to create package.json'')) (throw error)))\<close>

definition createConfigFiles :: \<open>env \<Rightarrow> path \<Rightarrow> step\<close> where
  \<open>createConfigFiles e projectPath =
     and_then (print (Spin ''Creating configuration files...''))
       (try_catch
          (in_sequence
            [promise_all
              [writeFile e (path_join e projectPath ''vite.config.js'') viteConfig,
               writeFile e (path_join e projectPath ''tailwind.config.js'') tailwindConfig,
               writeFile e (path_join e projectPath ''postcss.config.js'') postcssConfig,
               writeFile e (path_join e projectPath ''.gitignore'') gitignore],
             print (Succeed ''Configuration files created'')])
          (\<lambda>error. and_then (print (Fail ''Failed to create configuration files'')) (throw error)))\<close>

definition createSourceFiles :: \<open>env \<Rightarrow> path \<Rightarrow> answers \<Rightarrow> step\<close> where
  \<open>createSourceFiles e projectPath a =
     and_then (print (Spin ''Creating source files...''))
       (try_catch
          (in_sequence
            [promise_all
              [writeFile e (path_join e projectPath ''index.html'') (indexHtml a),
               writeFile e (path_join e projectPath ''src/main.jsx'') (mainJsx a),
               writeFile e (path_join e projectPath ''src/App.jsx'') (appJsx a),
               writeFile e (path_join e projectPath ''src/styles/index.css'') indexCss],
             print (Succeed ''Source files created'')])
          (\<lambda>error. and_then (print (Fail ''Failed to create source files'')) (throw error)))\<close>

definition installDependencies :: \<open>env \<Rightarrow> path \<Rightarrow> step\<close> where
  \<open>installDependencies e projectPath =
     and_then (print (Spin ''Installing dependencies (this may take a minute)...''))
       (try_catch
          (in_sequence
            [execAsync e ''npm install'' projectPath,
             print (Succeed ''Dependencies installed'')])
          (\<lambda>error. and_then (print (Fail ''Failed to install dependencies'')) (throw error)))\<close>

definition git_commit :: string where
  \<open>git_commit = ''git commit -m "Initial commit from create-joji-app"''\<close>

definition initializeGit :: \<open>env \<Rightarrow> path \<Rightarrow> step\<close> where
  \<open>initializeGit e projectPath =
     and_then (print (Spin ''Initializing git repository...''))
       (try_catch
          (in_sequence
            [execAsync e ''git init'' projectPath,
             execAsync e ''git add .'' projectPath,
             execAsync e git_commit projectPath,
             print (Succeed ''Git repository initialized'')])
          (\<lambda>error. print (Warn ''Could not initialize git (this is okay!)'')))\<close>

section \<open>The command\<close>

definition success_message :: string where
  \<open>success_message =
     [CHR 0x0A, CHR 0xE2, CHR 0x80, CHR 0x9A, CHR 0xC3, CHR 0xBA, CHR 0xC2, CHR 0xAE] @
     '' Success! Your project is ready!\<newline>''\<close>

text \<open>The four scaffolding calls, in the order of the program.\<close>

definition scaffold_steps :: \<open>env \<Rightarrow> path \<Rightarrow> answers \<Rightarrow> step list\<close> where
  \<open>scaffold_steps e projectPath a =
     [createProjectStructure e projectPath a,
      createPackageJson e projectPath a,
      createConfigFiles e projectPath,
      createSourceFiles e projectPath a]\<close>

definition scaffold :: \<open>env \<Rightarrow> path \<Rightarrow> answers \<Rightarrow> step\<close> where
  \<open>scaffold e projectPath a = in_sequence (scaffold_steps e projectPath a)\<close>

text \<open>What follows them: the install, if chosen, the git commands, and the last messages.\<close>

definition finish :: \<open>env \<Rightarrow> path \<Rightarrow> answers \<Rightarrow> step\<close> where
  \<open>finish e projectPath a =
     in_sequence
      [if installNow a then installDependencies e projectPath else skip,
       initializeGit e projectPath,
       print (Log success_message),
       print (Log ''To get started:\<newline>''),
       print (Log (''  cd '' @ projectName a)),
       if \<not> installNow a then print (Log ''  npm install'') else skip,
       print (Log ''  npm run dev\<newline>''),
       print (Log ''Happy coding!!!'')]\<close>

text \<open>
  The action of the command, from the optional command-line argument and what the user
  types. \<open>None\<close>: the user never gets past a prompt. Otherwise the outcome of the run and
  the world it leaves; an error thrown by a step ends the run there.
\<close>

definition action :: \<open>env \<Rightarrow> string option \<Rightarrow> user \<Rightarrow> world \<Rightarrow> (outcome \<times> world) option\<close> where
  \<open>action e arg u w =
     (let w0 = snd (print (Log ''Welcome to Joji App Creator!'') w) in
      case ask (validate_projectLocation w0) default_location (location_lines u) of
        None \<Rightarrow> None
      | Some (location, _) \<Rightarrow>
          (let normalizedLocation = replace_backslashes location in
           case name_loop e (default_name arg) normalizedLocation (name_lines u) w0 of
             (None, _) \<Rightarrow> None
           | (Some (name, projectPath), w1) \<Rightarrow>
               (let a = \<lparr>projectLocation = location, projectName = name,
                          useRouter = router_answer u, installNow = install_answer u\<rparr>
                in Some (and_then (scaffold e projectPath a) (finish e projectPath a) w1))))\<close>

section \<open>Vocabulary of the properties\<close>

text \<open>
  The names the program gives to \<^verbatim>\<open>path.join(projectPath, ...)\<close>, and the files a complete
  scaffolding writes, as a map from paths to contents, in the order of the writes.
\<close>

definition project_dirs :: \<open>answers \<Rightarrow> string list\<close> where
  \<open>project_dirs a =
     [''src'', ''src/components'', ''src/assets'', ''src/styles'', ''public''] @
     (if useRouter a then [''src/pages''] else [])\<close>


definition source_names :: \<open>string list\<close> where
  \<open>source_names = [''index.html'', ''src/main.jsx'', ''src/App.jsx'', ''src/styles/index.css'']\<close>

definition generated_files :: \<open>(path \<Rightarrow> path \<Rightarrow> path) \<Rightarrow> path \<Rightarrow> string \<Rightarrow> bool \<Rightarrow> (path \<rightharpoonup> string)\<close> where
  \<open>generated_files join projectPath name router =
     (let a = \<lparr>projectLocation = [], projectName = name, useRouter = router, installNow = False\<rparr> in
      [join projectPath ''package.json'' \<mapsto> stringify (packageJson a),
       join projectPath ''vite.config.js'' \<mapsto> viteConfig,
       join projectPath ''tailwind.config.js'' \<mapsto> tailwindConfig,
       join projectPath ''postcss.config.js'' \<mapsto> postcssConfig,
       join projectPath ''.gitignore'' \<mapsto> gitignore,
       join projectPath ''index.html'' \<mapsto> indexHtml a,
       join projectPath ''src/main.jsx'' \<mapsto> mainJsx a,
       join projectPath ''src/App.jsx'' \<mapsto> appJsx a,
       join projectPath ''src/styles/index.css'' \<mapsto> indexCss])\<close>

text \<open>
  The directories \<^verbatim>\<open>createProjectStructure\<close> ensures, in the order of its calls; the
  directories a list of \<^verbatim>\<open>ensureDir\<close> calls makes when all complete, each with those above
  it; the directories these calls go through one by one, in that order; and when one of
  them is no obstacle in a world: it is a directory there, or it is no file and the system
  does not refuse to make it.
\<close>

definition project_targets :: \<open>env \<Rightarrow> path \<Rightarrow> answers \<Rightarrow> path list\<close> where
  \<open>project_targets e p a = p # map (path_join e p) (project_dirs a)\<close>

definition made_dirs :: \<open>env \<Rightarrow> path list \<Rightarrow> path set\<close> where
  \<open>made_dirs e ds = (\<Union>d \<in> set ds. set (d # ancestors e d))\<close>

definition project_ways :: \<open>env \<Rightarrow> path \<Rightarrow> answers \<Rightarrow> path list\<close> where
  \<open>project_ways e p a = concat (map (way_to e) (project_targets e p a))\<close>

definition creatable :: \<open>env \<Rightarrow> world \<Rightarrow> path \<Rightarrow> bool\<close> where
  \<open>creatable e w d = (d \<in> dirs w \<or> (d \<notin> dom (files w) \<and> \<not> refuses e (MkDir d)))\<close>

text \<open>
  The platform \<open>nests\<close> the directories of the project under the project path \<open>p\<close>:
  the directory above \<^verbatim>\<open>path.join(p, 'src')\<close> and \<^verbatim>\<open>path.join(p, 'public')\<close> is \<open>p\<close>, and the
  one above \<^verbatim>\<open>path.join(p, 'src/components')\<close> and its siblings is \<^verbatim>\<open>path.join(p, 'src')\<close>.
\<close>

definition nests :: \<open>env \<Rightarrow> path \<Rightarrow> bool\<close> where
  \<open>nests e p =
     (ancestors e (path_join e p ''src'') = p # ancestors e p
      \<and> ancestors e (path_join e p ''public'') = p # ancestors e p
      \<and> ancestors e (path_join e p ''src/components'') = path_join e p ''src'' # p # ancestors e p
      \<and> ancestors e (path_join e p ''src/assets'') = path_join e p ''src'' # p # ancestors e p
      \<and> ancestors e (path_join e p ''src/styles'') = path_join e p ''src'' # p # ancestors e p
      \<and> ancestors e (path_join e p ''src/pages'') = path_join e p ''src'' # p # ancestors e p)\<close>

text \<open>
  The files a list of writes leaves, each write that the system does not refuse and whose
  path is no directory putting its content there; and the first write of a list that
  fails.
\<close>

fun put_all :: \<open>env \<Rightarrow> path set \<Rightarrow> (path \<times> string) list \<Rightarrow> (path \<rightharpoonup> string) \<Rightarrow> (path \<rightharpoonup> string)\<close> where
  \<open>put_all e D [] m = m\<close>
| \<open>put_all e D (qc # qcs) m =
     put_all e D qcs (if refuses e (WriteFile (fst qc)) \<or> fst qc \<in> D then m else m(fst qc \<mapsto> snd qc))\<close>

definition first_unwritable :: \<open>env \<Rightarrow> path set \<Rightarrow> (path \<times> string) list \<Rightarrow> path option\<close> where
  \<open>first_unwritable e D qcs = find (\<lambda>q. refuses e (WriteFile q) \<or> q \<in> D) (map fst qcs)\<close>


definition source_files :: \<open>env \<Rightarrow> path \<Rightarrow> answers \<Rightarrow> (path \<times> string) list\<close> where
  \<open>source_files e p a =
     [(path_join e p ''index.html'', indexHtml a),
      (path_join e p ''src/main.jsx'', mainJsx a),
      (path_join e p ''src/App.jsx'', appJsx a),
      (path_join e p ''src/styles/index.css'', indexCss)]\<close>

text \<open>The disk of a world: its directories and its files.\<close>

definition disk_of :: \<open>world \<Rightarrow> path set \<times> (path \<rightharpoonup> string)\<close> where
  \<open>disk_of w = (dirs w, files w)\<close>



text \<open>The lines of a text, split at the newline characters.\<close>

fun split_lines :: \<open>string \<Rightarrow> string list\<close> where
  \<open>split_lines [] = [[]]\<close>
| \<open>split_lines (c # cs) =
     (if c = CHR 0x0A then [] # split_lines cs
      else (case split_lines cs of l # ls \<Rightarrow> (c # l) # ls | [] \<Rightarrow> [[c]]))\<close>

text \<open>
  \<open>grows D F w w'\<close>: from \<open>w\<close> to \<open>w'\<close> no directory and no file has gone, the new
  directories are among \<open>D\<close>, the files outside \<open>F\<close> have the content they had, and no
  command was run. A step stays \<open>within D F\<close> when every run of it does that, whether it
  completes or throws.
\<close>

definition grows :: \<open>path set \<Rightarrow> path set \<Rightarrow> world \<Rightarrow> world \<Rightarrow> bool\<close> where
  \<open>grows D F w w' =
     (dirs w \<subseteq> dirs w' \<and> dirs w' \<subseteq> dirs w \<union> D
      \<and> dom (files w) \<subseteq> dom (files w')
      \<and> (\<forall>q. q \<notin> F \<longrightarrow> files w' q = files w q)
      \<and> execs w' = execs w)\<close>

definition within :: \<open>path set \<Rightarrow> path set \<Rightarrow> step \<Rightarrow> bool\<close> where
  \<open>within D F f = (\<forall>w. grows D F w (snd (f w)))\<close>

text \<open>
  The commands \<^verbatim>\<open>initializeGit\<close> hands to the shell: each one after the first only when
  the one before it succeeded.
\<close>

definition git_attempts :: \<open>env \<Rightarrow> path \<Rightarrow> (string \<times> path) list\<close> where
  \<open>git_attempts e p =
     (''git init'', p) #
     (if refuses e (Run ''git init'' p) then []
      else (''git add .'', p) #
        (if refuses e (Run ''git add .'' p) then [] else [(git_commit, p)]))\<close>

definition git_fails :: \<open>env \<Rightarrow> path \<Rightarrow> bool\<close> where
  \<open>git_fails e p =
     (refuses e (Run ''git init'' p) \<or> refuses e (Run ''git add .'' p) \<or> refuses e (Run git_commit p))\<close>

definition npm_fails :: \<open>env \<Rightarrow> path \<Rightarrow> bool\<close> where
  \<open>npm_fails e p = refuses e (Run ''npm install'' p)\<close>



section \<open>A concrete machine\<close>

text \<open>
  A machine to run the program on: paths joined with a slash (what \<^verbatim>\<open>path.join\<close> does on
  POSIX for arguments that need no normalising), the directories above a path being its
  parts up to each later slash (the nearest first), an operating system that refuses nothing unless told to,
  commands that leave the disk alone, and a disk that holds the directories \<^verbatim>\<open>/work\<close> and
  \<^verbatim>\<open>/work/taken\<close> and the file \<^verbatim>\<open>/work/notes.txt\<close>.
\<close>

definition slash_join :: \<open>path \<Rightarrow> path \<Rightarrow> path\<close> where
  \<open>slash_join a b = a @ ''/'' @ b\<close>

fun parts_before_slashes :: \<open>path \<Rightarrow> path \<Rightarrow> path list\<close> where
  \<open>parts_before_slashes seen [] = []\<close>
| \<open>parts_before_slashes seen (c # cs) =
     (if c = CHR ''/'' \<and> seen \<noteq> [] then [seen] else []) @ parts_before_slashes (seen @ [c]) cs\<close>

definition slash_ancestors :: \<open>path \<Rightarrow> path list\<close> where
  \<open>slash_ancestors p = rev (parts_before_slashes [] p)\<close>

definition machine :: \<open>operation list \<Rightarrow> env\<close> where
  \<open>machine broken =
     \<lparr>path_join = slash_join, ancestors = slash_ancestors, refuses = (\<lambda>x. x \<in> set broken),
      shell = (\<lambda>command cwd disk. disk)\<rparr>\<close>

definition work_disk :: world where
  \<open>work_disk =
     \<lparr>dirs = {''/work'', ''/work/taken''}, files = [''/work/notes.txt'' \<mapsto> ''to do''],
      execs = [], console = []\<rparr>\<close>



text \<open>Answers that name the project \<^verbatim>\<open>app\<close> in \<^verbatim>\<open>/work\<close>.\<close>

definition app_answers :: \<open>bool \<Rightarrow> bool \<Rightarrow> answers\<close> where
  \<open>app_answers router install =
     \<lparr>projectLocation = ''/work'', projectName = ''app'', useRouter = router, installNow = install\<rparr>\<close>

text \<open>
  A user who enters \<^verbatim>\<open>/work\<close>, then the names \<^verbatim>\<open>taken\<close>, \<^verbatim>\<open>Not OK\<close> and \<^verbatim>\<open>app\<close>, and
  answers no to both questions.
\<close>

definition decliner :: user where
  \<open>decliner =
     \<lparr>location_lines = [''/work''], name_lines = [''taken'', ''Not OK'', ''app''],
      router_answer = False, install_answer = False\<rparr>\<close>


section \<open>The pattern of the project name\<close>

lemma class_ranges_projectName:
  \<open>class_ranges ''a-z0-9-_'' =
     [(CHR ''a'', CHR ''z''), (CHR ''0'', CHR ''9''), (CHR ''-'', CHR ''-''), (CHR ''_'', CHR ''_'')]\<close>
  by simp

lemma code_unit_eq_iff: \<open>code_unit a = code_unit b \<longleftrightarrow> a = b\<close>
  by (simp add: code_unit_def)

lemma in_class_projectName: \<open>in_class (class_ranges ''a-z0-9-_'') c = name_char c\<close>
  unfolding class_ranges_projectName in_class_def name_char_def
  by (auto simp: code_unit_eq_iff [symmetric] simp del: of_char_eq_iff)

lemma plus_from_Class:
  \<open>set (plus_from n (ends (Class rs) s) i) =
     {j. i < j \<and> j \<le> length s \<and> j \<le> i + n \<and> (\<forall>k. i \<le> k \<and> k < j \<longrightarrow> in_class rs (s ! k))}\<close>
proof (induction n arbitrary: i)
  case 0
  show ?case by auto
next
  case (Suc n)
  show ?case
  proof (cases \<open>i < length s \<and> in_class rs (s ! i)\<close>)
    case True
    have \<open>set (plus_from (Suc n) (ends (Class rs) s) i) =
        insert (Suc i) (set (plus_from n (ends (Class rs) s) (Suc i)))\<close>
      using True by simp
    also have \<open>\<dots> = {j. i < j \<and> j \<le> length s \<and> j \<le> i + Suc n
        \<and> (\<forall>k. i \<le> k \<and> k < j \<longrightarrow> in_class rs (s ! k))}\<close>
    proof (intro set_eqI iffI)
      fix j
      assume \<open>j \<in> insert (Suc i) (set (plus_from n (ends (Class rs) s) (Suc i)))\<close>
      then consider \<open>j = Suc i\<close>
        | \<open>Suc i < j\<close> \<open>j \<le> length s\<close> \<open>j \<le> Suc i + n\<close>
          \<open>\<forall>k. Suc i \<le> k \<and> k < j \<longrightarrow> in_class rs (s ! k)\<close>
        unfolding Suc.IH by auto
      then show \<open>j \<in> {j. i < j \<and> j \<le> length s \<and> j \<le> i + Suc n
          \<and> (\<forall>k. i \<le> k \<and> k < j \<longrightarrow> in_class rs (s ! k))}\<close>
      proof cases
        case 1
        with True show ?thesis by (auto simp: less_Suc_eq_le)
      next
        case 2
        have \<open>in_class rs (s ! k)\<close> if \<open>i \<le> k\<close> \<open>k < j\<close> for k
          using that 2(4) True by (cases \<open>k = i\<close>) auto
        with 2 show ?thesis by auto
      qed
    next
      fix j
      assume \<open>j \<in> {j. i < j \<and> j \<le> length s \<and> j \<le> i + Suc n
          \<and> (\<forall>k. i \<le> k \<and> k < j \<longrightarrow> in_class rs (s ! k))}\<close>
      then show \<open>j \<in> insert (Suc i) (set (plus_from n (ends (Class rs) s) (Suc i)))\<close>
        unfolding Suc.IH by (cases \<open>j = Suc i\<close>) auto
    qed
    finally show ?thesis .
  next
    case False
    have e1: \<open>set (plus_from (Suc n) (ends (Class rs) s) i) = {}\<close>
      using False by auto
    have e2: \<open>{j. i < j \<and> j \<le> length s \<and> j \<le> i + Suc n
        \<and> (\<forall>k. i \<le> k \<and> k < j \<longrightarrow> in_class rs (s ! k))} = {}\<close>
    proof -
      have \<open>\<not> (i < j \<and> j \<le> length s \<and> j \<le> i + Suc n
          \<and> (\<forall>k. i \<le> k \<and> k < j \<longrightarrow> in_class rs (s ! k)))\<close> for j
      proof
        assume a: \<open>i < j \<and> j \<le> length s \<and> j \<le> i + Suc n
          \<and> (\<forall>k. i \<le> k \<and> k < j \<longrightarrow> in_class rs (s ! k))\<close>
        then have \<open>i < length s\<close> \<open>in_class rs (s ! i)\<close> by auto
        with False show False by simp
      qed
      then show ?thesis by blast
    qed
    show ?thesis by (simp only: e1 e2)
  qed
qed

lemma ends_projectName_regex:
  \<open>ends projectName_regex s i \<noteq> [] \<longleftrightarrow> i = 0 \<and> plain_name s\<close>
proof (cases \<open>i = 0\<close>)
  case False
  then show ?thesis by (simp add: projectName_regex_def)
next
  case True
  let ?P = \<open>plus_from (Suc (length s)) (ends (Class (class_ranges ''a-z0-9-_'')) s) 0\<close>
  have \<open>ends projectName_regex s 0 \<noteq> [] \<longleftrightarrow> (\<exists>j \<in> set ?P. j = length s)\<close>
    by (auto simp: projectName_regex_def simp del: plus_from.simps class_ranges.simps)
  also have \<open>\<dots> \<longleftrightarrow> 0 < length s \<and> (\<forall>k < length s. name_char (s ! k))\<close>
    unfolding plus_from_Class in_class_projectName by auto
  also have \<open>\<dots> \<longleftrightarrow> plain_name s\<close>
    by (simp add: plain_name_def list_all_length)
  finally show ?thesis using True by simp
qed

lemma test_projectName_regex: \<open>test projectName_regex s = plain_name s\<close>
  by (simp add: test_def list_ex_iff ends_projectName_regex del: upt_Suc)

lemma validate_projectName_iff: \<open>validate_projectName s = Accepted \<longleftrightarrow> plain_name s\<close>
  by (simp add: validate_projectName_def test_projectName_regex)

lemma validate_projectLocation_iff:
  \<open>validate_projectLocation w input = Accepted \<longleftrightarrow> existsSync (replace_backslashes input) w\<close>
  by (simp add: validate_projectLocation_def)

section \<open>The prompts\<close>

lemma ask_Some:
  \<open>ask v d ls = Some (a, rest) \<Longrightarrow> v a = Accepted \<and> length rest < length ls\<close>
  by (induction ls) (auto simp: Let_def split: if_splits)

lemma ask_Some_split:
  \<open>ask v d ls = Some (n, rest) \<Longrightarrow>
     \<exists>pre l. ls = pre @ l # rest \<and> n = (if l = [] then d else l)
       \<and> (\<forall>x \<in> set pre. v (if x = [] then d else x) \<noteq> Accepted)\<close>
proof (induction ls)
  case Nil
  then show ?case by simp
next
  case (Cons a ls)
  show ?case
  proof (cases \<open>v (if a = [] then d else a) = Accepted\<close>)
    case True
    with Cons.prems have \<open>n = (if a = [] then d else a)\<close> \<open>rest = ls\<close>
      by (auto simp: Let_def)
    then have \<open>a # ls = [] @ a # rest \<and> n = (if a = [] then d else a)
        \<and> (\<forall>x \<in> set []. v (if x = [] then d else x) \<noteq> Accepted)\<close>
      by simp
    then show ?thesis by blast
  next
    case False
    with Cons.prems have \<open>ask v d ls = Some (n, rest)\<close>
      by (auto simp: Let_def)
    from Cons.IH [OF this] obtain pre l where
      p: \<open>ls = pre @ l # rest\<close> \<open>n = (if l = [] then d else l)\<close>
        \<open>\<forall>x \<in> set pre. v (if x = [] then d else x) \<noteq> Accepted\<close>
      by blast
    from p False have \<open>a # ls = (a # pre) @ l # rest \<and> n = (if l = [] then d else l)
        \<and> (\<forall>x \<in> set (a # pre). v (if x = [] then d else x) \<noteq> Accepted)\<close>
      by simp
    then show ?thesis by blast
  qed
qed

lemma ask_None_iff:
  \<open>ask v d ls = None \<longleftrightarrow> (\<forall>l \<in> set ls. v (if l = [] then d else l) \<noteq> Accepted)\<close>
  by (induction ls) (auto simp: Let_def)

lemma print_disk [simp]:
  \<open>dirs (snd (print l w)) = dirs w\<close> \<open>files (snd (print l w)) = files w\<close>
  \<open>execs (snd (print l w)) = execs w\<close> \<open>console (snd (print l w)) = console w @ [l]\<close>
  \<open>fst (print l w) = Done\<close>
  by (simp_all add: print_def)

lemma existsSync_print [simp]: \<open>existsSync p (snd (print l w)) = existsSync p w\<close>
  by (simp add: existsSync_def)

lemma name_loop_exit:
  \<open>name_loop e d loc ls w = (Some (name, p), w') \<Longrightarrow>
     p = path_join e loc name \<and> \<not> existsSync p w' \<and> validate_projectName name = Accepted
     \<and> dirs w' = dirs w \<and> files w' = files w \<and> execs w' = execs w\<close>
proof (induction e d loc ls w rule: name_loop.induct)
  case (1 e dflt loc ls w)
  show ?case
  proof (cases \<open>ask validate_projectName dflt ls\<close>)
    case None
    with 1(2) show ?thesis by (subst (asm) name_loop.simps) simp
  next
    case (Some x)
    obtain n rest where x: \<open>x = (n, rest)\<close> by (cases x)
    show ?thesis
    proof (cases \<open>existsSync (path_join e loc n) w\<close>)
      case True
      with 1(2) Some x have
        \<open>name_loop e dflt loc rest (snd (print (Log (exists_message n)) w)) = (Some (name, p), w')\<close>
        by (subst (asm) name_loop.simps) simp
      from 1(1) [OF Some x [symmetric] refl True this] show ?thesis by auto
    next
      case False
      from 1(2) have \<open>(Some (n, path_join e loc n), w) = (Some (name, p), w')\<close>
        by (subst (asm) name_loop.simps) (auto simp: Some x False)
      with False ask_Some [of validate_projectName dflt ls n rest] Some x show ?thesis by auto
    qed
  qed
qed

lemma name_loop_again:
  assumes \<open>validate_projectName (if l = [] then d else l) = Accepted\<close>
    and \<open>existsSync (path_join e loc (if l = [] then d else l)) w\<close>
  shows \<open>name_loop e d loc (l # ls) w =
     name_loop e d loc ls (snd (print (Log (exists_message (if l = [] then d else l))) w))\<close>
  using assms by (subst name_loop.simps) (simp add: Let_def)

lemma name_loop_rejects:
  assumes \<open>validate_projectName (if l = [] then d else l) \<noteq> Accepted\<close>
  shows \<open>name_loop e d loc (l # ls) w = name_loop e d loc ls w\<close>
  using assms by (subst name_loop.simps, subst (2) name_loop.simps) (simp add: Let_def)

lemma name_loop_returns:
  assumes \<open>l \<in> set ls\<close> and \<open>l \<noteq> []\<close> and \<open>validate_projectName l = Accepted\<close>
    and \<open>\<not> existsSync (path_join e loc l) w\<close>
  shows \<open>\<exists>name p w'. name_loop e d loc ls w = (Some (name, p), w')\<close>
  using assms
proof (induction e d loc ls w rule: name_loop.induct)
  case (1 e dflt loc ls w)
  from 1(2,3,4) have \<open>ask validate_projectName dflt ls \<noteq> None\<close>
    unfolding ask_None_iff by force
  then obtain n rest where a: \<open>ask validate_projectName dflt ls = Some (n, rest)\<close>
    by auto
  from ask_Some_split [OF a] obtain pre x where
    s: \<open>ls = pre @ x # rest\<close> \<open>n = (if x = [] then dflt else x)\<close>
      \<open>\<forall>y \<in> set pre. validate_projectName (if y = [] then dflt else y) \<noteq> Accepted\<close>
    by blast
  show ?case
  proof (cases \<open>existsSync (path_join e loc n) w\<close>)
    case False
    then have \<open>name_loop e dflt loc ls w = (Some (n, path_join e loc n), w)\<close>
      by (subst name_loop.simps) (simp add: a)
    then show ?thesis by blast
  next
    case True
    have \<open>l \<notin> set pre\<close>
      using s(3) 1(3,4) by force
    moreover have \<open>l \<noteq> x\<close>
      using True 1(3,5) s(2) by auto
    ultimately have m: \<open>l \<in> set rest\<close>
      using 1(2) s(1) by auto
    have f: \<open>\<not> existsSync (path_join e loc l) (snd (print (Log (exists_message n)) w))\<close>
      using 1(5) by simp
    from 1(1) [OF a refl refl True m 1(3,4) f]
    obtain name p w' where
      \<open>name_loop e dflt loc rest (snd (print (Log (exists_message n)) w)) = (Some (name, p), w')\<close>
      by blast
    then have \<open>name_loop e dflt loc ls w = (Some (name, p), w')\<close>
      by (subst name_loop.simps) (simp add: a True)
    then show ?thesis by blast
  qed
qed

lemma action_runs:
  assumes \<open>action e arg u w = Some (r, w')\<close>
  shows \<open>\<exists>location name w1.
      \<not> existsSync (path_join e (replace_backslashes location) name) w1
      \<and> validate_projectName name = Accepted
      \<and> dirs w1 = dirs w \<and> files w1 = files w
      \<and> (r, w') =
          and_then
            (scaffold e (path_join e (replace_backslashes location) name)
               \<lparr>projectLocation = location, projectName = name,
                useRouter = router_answer u, installNow = install_answer u\<rparr>)
            (finish e (path_join e (replace_backslashes location) name)
               \<lparr>projectLocation = location, projectName = name,
                useRouter = router_answer u, installNow = install_answer u\<rparr>) w1\<close>
proof -
  let ?w0 = \<open>snd (print (Log ''Welcome to Joji App Creator!'') w)\<close>
  from assms obtain location rest0 where
    l: \<open>ask (validate_projectLocation ?w0) default_location (location_lines u) = Some (location, rest0)\<close>
    by (auto simp: action_def Let_def split: option.splits prod.splits)
  from assms l obtain name p w1 where
    n: \<open>name_loop e (default_name arg) (replace_backslashes location) (name_lines u) ?w0
          = (Some (name, p), w1)\<close>
    by (auto simp: action_def Let_def split: option.splits prod.splits)
  from name_loop_exit [OF n] have
    p: \<open>p = path_join e (replace_backslashes location) name\<close> \<open>\<not> existsSync p w1\<close>
      \<open>validate_projectName name = Accepted\<close> \<open>dirs w1 = dirs w\<close> \<open>files w1 = files w\<close>
    by auto
  from assms l n have \<open>(r, w') =
      and_then
        (scaffold e p \<lparr>projectLocation = location, projectName = name,
            useRouter = router_answer u, installNow = install_answer u\<rparr>)
        (finish e p \<lparr>projectLocation = location, projectName = name,
            useRouter = router_answer u, installNow = install_answer u\<rparr>) w1\<close>
    by (simp add: action_def Let_def)
  with p show ?thesis by blast
qed

section \<open>Steps that complete, steps that throw\<close>

lemma and_then_Done:
  \<open>and_then f g w = (Done, w') \<longleftrightarrow> (\<exists>v. f w = (Done, v) \<and> g v = (Done, w'))\<close>
  by (auto simp: and_then_def split: prod.splits outcome.splits)


lemma rethrow_Done:
  \<open>try_catch f (\<lambda>error. and_then (print l) (throw error)) w = (Done, w') \<longleftrightarrow> f w = (Done, w')\<close>
  by (auto simp: try_catch_def and_then_def print_def throw_def split: prod.splits outcome.splits)

lemma rethrow_Threw:
  \<open>try_catch f (\<lambda>error. and_then (print l) (throw error)) w = (Threw x, w') \<longleftrightarrow>
     (\<exists>v. f w = (Threw x, v) \<and> w' = v\<lparr>console := console v @ [l]\<rparr>)\<close>
  by (auto simp: try_catch_def and_then_def print_def throw_def split: prod.splits outcome.splits)

lemma print_eq:
  \<open>print l w = (r, w') \<longleftrightarrow> r = Done \<and> w' = w\<lparr>console := console w @ [l]\<rparr>\<close>
  by (auto simp: print_def)

lemma skip_eq: \<open>skip w = (r, w') \<longleftrightarrow> r = Done \<and> w' = w\<close>
  by (auto simp: skip_def)

lemma writeFile_Done:
  \<open>writeFile e p c w = (Done, w') \<longleftrightarrow>
     \<not> refuses e (WriteFile p) \<and> p \<notin> dirs w \<and> w' = w\<lparr>files := (files w)(p \<mapsto> c)\<rparr>\<close>
  by (auto simp: writeFile_def)

lemma promise_all_Done:
  \<open>promise_all (f # fs) w = (Done, w') \<longleftrightarrow> (\<exists>v. f w = (Done, v) \<and> promise_all fs v = (Done, w'))\<close>
  by (auto split: prod.splits outcome.splits)

lemma promise_all_Nil: \<open>promise_all [] w = (r, w') \<longleftrightarrow> r = Done \<and> w' = w\<close>
  by auto

lemma and_then_cases:
  \<open>and_then f g w = (if fst (f w) = Done then g (snd (f w)) else f w)\<close>
  by (cases \<open>f w\<close>; cases \<open>fst (f w)\<close>) (auto simp: and_then_def)

lemma and_then_fst:
  \<open>fst (and_then f g w) = (if fst (f w) = Done then fst (g (snd (f w))) else fst (f w))\<close>
  by (simp add: and_then_cases)

lemma try_catch_cases:
  \<open>try_catch f h w = (case fst (f w) of Done \<Rightarrow> f w | Threw x \<Rightarrow> h x (snd (f w)))\<close>
  by (cases \<open>f w\<close>; cases \<open>fst (f w)\<close>) (auto simp: try_catch_def)

lemma promise_all_cases:
  \<open>promise_all (f # fs) w =
     ((case fst (f w) of Done \<Rightarrow> fst (promise_all fs (snd (f w))) | Threw x \<Rightarrow> Threw x),
      snd (promise_all fs (snd (f w))))\<close>
  by (cases \<open>f w\<close>; cases \<open>promise_all fs (snd (f w))\<close>) (auto split: outcome.splits)


lemma and_then_skip: \<open>and_then skip g = g\<close> \<open>and_then f skip = f\<close>
  by (auto simp: and_then_def skip_def fun_eq_iff split: prod.splits outcome.splits)

lemma and_then_assoc: \<open>and_then (and_then f g) h = and_then f (and_then g h)\<close>
  by (auto simp: and_then_def fun_eq_iff split: prod.splits outcome.splits)

lemma made_dirs_simps:
  \<open>made_dirs e [] = {}\<close>
  \<open>made_dirs e (d # ds) = set (d # ancestors e d) \<union> made_dirs e ds\<close>
  by (simp_all add: made_dirs_def)

lemma creatable_insert:
  \<open>creatable e w d \<Longrightarrow> creatable e (w\<lparr>dirs := insert d (dirs w)\<rparr>) = creatable e w\<close>
  by (auto simp: creatable_def fun_eq_iff)

lemma make_dirs_result:
  \<open>make_dirs e ds w =
     ((case find (\<lambda>d. \<not> creatable e w d) ds of None \<Rightarrow> Done | Some d \<Rightarrow> Threw (Failed (MkDir d))),
      w\<lparr>dirs := dirs w \<union> set (takeWhile (creatable e w) ds)\<rparr>)\<close>
proof (induction ds arbitrary: w)
  case Nil
  show ?case by simp
next
  case (Cons d ds)
  consider (there) \<open>d \<in> dirs w\<close>
    | (obstacle) \<open>d \<notin> dirs w\<close> \<open>d \<in> dom (files w) \<or> refuses e (MkDir d)\<close>
    | (made) \<open>d \<notin> dirs w\<close> \<open>d \<notin> dom (files w)\<close> \<open>\<not> refuses e (MkDir d)\<close>
    by blast
  then show ?case
  proof cases
    case there
    then have c: \<open>creatable e w d\<close>
      by (simp add: creatable_def)
    have s: \<open>insert d (dirs w \<union> X) = dirs w \<union> X\<close> for X
      using there by blast
    show ?thesis
      using there c by (simp add: Cons.IH s)
  next
    case obstacle
    then have c: \<open>\<not> creatable e w d\<close>
      by (auto simp: creatable_def)
    show ?thesis
      using obstacle c by auto
  next
    case made
    then have c: \<open>creatable e w d\<close>
      by (simp add: creatable_def)
    show ?thesis
      using made c by (simp add: Cons.IH creatable_insert [OF c])
  qed
qed

lemma make_dirs_append: \<open>make_dirs e (ds @ ds') = and_then (make_dirs e ds) (make_dirs e ds')\<close>
proof
  fix w show \<open>make_dirs e (ds @ ds') w = and_then (make_dirs e ds) (make_dirs e ds') w\<close>
    by (induction ds arbitrary: w) (simp_all add: and_then_def)
qed

lemma ensure_in_sequence:
  \<open>in_sequence (map (ensureDir e) ds) = make_dirs e (concat (map (way_to e) ds))\<close>
proof (induction ds)
  case Nil
  show ?case by (simp add: skip_def fun_eq_iff)
next
  case (Cons d ds)
  show ?case
    by (simp add: Cons.IH make_dirs_append ensureDir_def [symmetric])
qed

lemma set_way_to: \<open>set (way_to e d) = set (d # ancestors e d)\<close>
  by (auto simp: way_to_def)

lemma set_project_ways: \<open>set (project_ways e p a) = made_dirs e (project_targets e p a)\<close>
  by (simp add: project_ways_def made_dirs_def set_way_to)

lemma createProjectStructure_as_list:
  \<open>createProjectStructure e p a =
     and_then (print (Spin ''Creating project structure...''))
       (try_catch
          (and_then (make_dirs e (project_ways e p a))
             (print (Succeed ''Project structure created'')))
          (\<lambda>error. and_then (print (Fail ''Failed to create project structure'')) (throw error)))\<close>
proof -
  have \<open>createProjectStructure e p a =
     and_then (print (Spin ''Creating project structure...''))
       (try_catch
          (and_then (in_sequence (map (ensureDir e) (project_targets e p a)))
             (print (Succeed ''Project structure created'')))
          (\<lambda>error. and_then (print (Fail ''Failed to create project structure'')) (throw error)))\<close>
    by (simp add: createProjectStructure_def project_targets_def project_dirs_def and_then_skip
        and_then_assoc)
  then show ?thesis
    unfolding ensure_in_sequence project_ways_def .
qed

lemma createProjectStructure_result:
  \<open>fst (createProjectStructure e p a w) =
     (case find (\<lambda>d. \<not> creatable e w d) (project_ways e p a) of
        None \<Rightarrow> Done | Some d \<Rightarrow> Threw (Failed (MkDir d)))\<close>
  \<open>dirs (snd (createProjectStructure e p a w)) =
     dirs w \<union> set (takeWhile (creatable e w) (project_ways e p a))\<close>
  \<open>files (snd (createProjectStructure e p a w)) = files w\<close>
  \<open>execs (snd (createProjectStructure e p a w)) = execs w\<close>
proof -
  let ?w0 = \<open>w\<lparr>console := console w @ [Spin ''Creating project structure...'']\<rparr>\<close>
  have e: \<open>creatable e ?w0 = creatable e w\<close>
    by (simp add: creatable_def fun_eq_iff)
  note r = make_dirs_result [of e \<open>project_ways e p a\<close> ?w0, unfolded e]
  show \<open>fst (createProjectStructure e p a w) =
     (case find (\<lambda>d. \<not> creatable e w d) (project_ways e p a) of
        None \<Rightarrow> Done | Some d \<Rightarrow> Threw (Failed (MkDir d)))\<close>
    unfolding createProjectStructure_as_list
    by (simp add: and_then_def try_catch_def print_def throw_def r split: option.splits)
  show \<open>dirs (snd (createProjectStructure e p a w)) =
     dirs w \<union> set (takeWhile (creatable e w) (project_ways e p a))\<close>
    unfolding createProjectStructure_as_list
    by (simp add: and_then_def try_catch_def print_def throw_def r split: option.splits)
  show \<open>files (snd (createProjectStructure e p a w)) = files w\<close>
    unfolding createProjectStructure_as_list
    by (simp add: and_then_def try_catch_def print_def throw_def r split: option.splits)
  show \<open>execs (snd (createProjectStructure e p a w)) = execs w\<close>
    unfolding createProjectStructure_as_list
    by (simp add: and_then_def try_catch_def print_def throw_def r split: option.splits)
qed

lemma find_None_takeWhile: \<open>find (\<lambda>d. \<not> P d) ds = None \<Longrightarrow> takeWhile P ds = ds\<close>
  by (induction ds) (auto split: if_splits)

lemma createProjectStructure_Done:
  assumes \<open>createProjectStructure e p a w = (Done, w')\<close>
  shows \<open>dirs w' = dirs w \<union> made_dirs e (project_targets e p a)\<close>
    and \<open>files w' = files w\<close> and \<open>execs w' = execs w\<close>
proof -
  from assms createProjectStructure_result(1) [of e p a w]
  have \<open>find (\<lambda>d. \<not> creatable e w d) (project_ways e p a) = None\<close>
    by (auto split: option.splits)
  then have t: \<open>takeWhile (creatable e w) (project_ways e p a) = project_ways e p a\<close>
    by (rule find_None_takeWhile)
  have \<open>dirs w' = dirs (snd (createProjectStructure e p a w))\<close>
    by (simp add: assms)
  then show \<open>dirs w' = dirs w \<union> made_dirs e (project_targets e p a)\<close>
    unfolding createProjectStructure_result(2) t set_project_ways .
  from createProjectStructure_result(3,4) [of e p a w] assms
  show \<open>files w' = files w\<close> and \<open>execs w' = execs w\<close>
    by simp_all
qed

lemma takeWhile_project_ways:
  \<open>set (takeWhile P (project_ways e p a)) \<subseteq> made_dirs e (project_targets e p a)\<close>
  unfolding set_project_ways [symmetric] by (auto dest: set_takeWhileD)

lemma made_dirs_nested:
  assumes \<open>nests e p\<close>
  shows \<open>made_dirs e (project_targets e p a) =
     set (ancestors e p) \<union>
     ({p, path_join e p ''src'', path_join e p ''src/components'', path_join e p ''src/assets'',
       path_join e p ''src/styles'', path_join e p ''public''}
      \<union> (if useRouter a then {path_join e p ''src/pages''} else {}))\<close>
  using assms unfolding nests_def made_dirs_def project_targets_def project_dirs_def
  by auto

lemma createPackageJson_eq:
  \<open>createPackageJson e p a w =
     (if refuses e (WriteFile (path_join e p ''package.json'')) \<or> path_join e p ''package.json'' \<in> dirs w
      then (Threw (Failed (WriteFile (path_join e p ''package.json''))),
            w\<lparr>console := console w @ [Spin ''Creating package.json...'', Fail ''Failed to create package.json'']\<rparr>)
      else (Done,
            w\<lparr>files := (files w)(path_join e p ''package.json'' \<mapsto> stringify (packageJson a)),
              console := console w @ [Spin ''Creating package.json...'', Succeed ''package.json created'']\<rparr>))\<close>
  by (simp add: createPackageJson_def and_then_def try_catch_def print_def writeFile_def throw_def skip_def)

lemma createPackageJson_Done:
  assumes \<open>createPackageJson e p a w = (Done, w')\<close>
  shows \<open>files w' = (files w)(path_join e p ''package.json'' \<mapsto> stringify (packageJson a))\<close>
    and \<open>dirs w' = dirs w\<close> and \<open>execs w' = execs w\<close>
  using assms by (auto simp: createPackageJson_eq split: if_splits)

lemma createConfigFiles_Done:
  assumes \<open>createConfigFiles e p w = (Done, w')\<close>
  shows \<open>files w' = (files w)
      (path_join e p ''vite.config.js'' \<mapsto> viteConfig,
       path_join e p ''tailwind.config.js'' \<mapsto> tailwindConfig,
       path_join e p ''postcss.config.js'' \<mapsto> postcssConfig,
       path_join e p ''.gitignore'' \<mapsto> gitignore)\<close>
    and \<open>dirs w' = dirs w\<close> and \<open>execs w' = execs w\<close>
  using assms
  by (auto simp: createConfigFiles_def and_then_Done rethrow_Done print_eq skip_eq
      promise_all_Done promise_all_Nil writeFile_Done simp del: promise_all.simps)

lemma createSourceFiles_Done:
  assumes \<open>createSourceFiles e p a w = (Done, w')\<close>
  shows \<open>files w' = (files w)
      (path_join e p ''index.html'' \<mapsto> indexHtml a,
       path_join e p ''src/main.jsx'' \<mapsto> mainJsx a,
       path_join e p ''src/App.jsx'' \<mapsto> appJsx a,
       path_join e p ''src/styles/index.css'' \<mapsto> indexCss)\<close>
    and \<open>dirs w' = dirs w\<close> and \<open>execs w' = execs w\<close>
  using assms
  by (auto simp: createSourceFiles_def and_then_Done rethrow_Done print_eq skip_eq
      promise_all_Done promise_all_Nil writeFile_Done simp del: promise_all.simps)


lemma promise_all_writes:
  \<open>promise_all (map (\<lambda>qc. writeFile e (fst qc) (snd qc)) qcs) w =
     ((case first_unwritable e (dirs w) qcs of
         None \<Rightarrow> Done | Some q \<Rightarrow> Threw (Failed (WriteFile q))),
      w\<lparr>files := put_all e (dirs w) qcs (files w)\<rparr>)\<close>
proof (induction qcs arbitrary: w)
  case Nil
  show ?case by (simp add: first_unwritable_def)
next
  case (Cons qc qcs)
  show ?case
  proof (cases \<open>refuses e (WriteFile (fst qc)) \<or> fst qc \<in> dirs w\<close>)
    case True
    then have \<open>writeFile e (fst qc) (snd qc) w = (Threw (Failed (WriteFile (fst qc))), w)\<close>
      by (simp add: writeFile_def)
    with True show ?thesis
      by (simp add: Cons.IH first_unwritable_def)
  next
    case False
    then have \<open>writeFile e (fst qc) (snd qc) w = (Done, w\<lparr>files := (files w)(fst qc \<mapsto> snd qc)\<rparr>)\<close>
      by (simp add: writeFile_def)
    with False show ?thesis
      by (simp add: Cons.IH first_unwritable_def)
  qed
qed

lemma write_step_result:
  \<open>fst (and_then (print l1)
      (try_catch (in_sequence [promise_all (map (\<lambda>qc. writeFile e (fst qc) (snd qc)) qcs), print l2])
         (\<lambda>error. and_then (print l3) (throw error))) w) =
     (case first_unwritable e (dirs w) qcs of None \<Rightarrow> Done | Some q \<Rightarrow> Threw (Failed (WriteFile q)))\<close>
  \<open>files (snd (and_then (print l1)
      (try_catch (in_sequence [promise_all (map (\<lambda>qc. writeFile e (fst qc) (snd qc)) qcs), print l2])
         (\<lambda>error. and_then (print l3) (throw error))) w)) =
     put_all e (dirs w) qcs (files w)\<close>
  \<open>dirs (snd (and_then (print l1)
      (try_catch (in_sequence [promise_all (map (\<lambda>qc. writeFile e (fst qc) (snd qc)) qcs), print l2])
         (\<lambda>error. and_then (print l3) (throw error))) w)) = dirs w\<close>
  by (simp_all add: and_then_def try_catch_def print_def throw_def skip_def promise_all_writes
      split: option.splits del: promise_all.simps)



lemma createSourceFiles_result:
  \<open>fst (createSourceFiles e p a w) =
     (case first_unwritable e (dirs w) (source_files e p a) of
        None \<Rightarrow> Done | Some q \<Rightarrow> Threw (Failed (WriteFile q)))\<close>
  \<open>files (snd (createSourceFiles e p a w)) = put_all e (dirs w) (source_files e p a) (files w)\<close>
  \<open>dirs (snd (createSourceFiles e p a w)) = dirs w\<close>
proof -
  have l: \<open>[writeFile e (path_join e p ''index.html'') (indexHtml a),
       writeFile e (path_join e p ''src/main.jsx'') (mainJsx a),
       writeFile e (path_join e p ''src/App.jsx'') (appJsx a),
       writeFile e (path_join e p ''src/styles/index.css'') indexCss]
     = map (\<lambda>qc. writeFile e (fst qc) (snd qc)) (source_files e p a)\<close>
    by (simp add: source_files_def)
  show \<open>fst (createSourceFiles e p a w) =
     (case first_unwritable e (dirs w) (source_files e p a) of
        None \<Rightarrow> Done | Some q \<Rightarrow> Threw (Failed (WriteFile q)))\<close>
    unfolding createSourceFiles_def l by (rule write_step_result)
  show \<open>files (snd (createSourceFiles e p a w)) = put_all e (dirs w) (source_files e p a) (files w)\<close>
    unfolding createSourceFiles_def l by (rule write_step_result)
  show \<open>dirs (snd (createSourceFiles e p a w)) = dirs w\<close>
    unfolding createSourceFiles_def l by (rule write_step_result)
qed


lemma createSourceFiles_completes:
  \<open>fst (createSourceFiles e p a w) = Done \<longleftrightarrow>
     list_all (\<lambda>q. \<not> refuses e (WriteFile q) \<and> q \<notin> dirs w) (map (path_join e p) source_names)\<close>
  unfolding createSourceFiles_result(1)
  by (simp add: first_unwritable_def source_files_def source_names_def)

lemma templates_answers:
  \<open>stringify (packageJson a) = stringify (packageJson
      \<lparr>projectLocation = [], projectName = projectName a, useRouter = useRouter a, installNow = False\<rparr>)\<close>
  \<open>indexHtml a = indexHtml
      \<lparr>projectLocation = [], projectName = projectName a, useRouter = useRouter a, installNow = False\<rparr>\<close>
  \<open>mainJsx a = mainJsx
      \<lparr>projectLocation = [], projectName = projectName a, useRouter = useRouter a, installNow = False\<rparr>\<close>
  \<open>appJsx a = appJsx
      \<lparr>projectLocation = [], projectName = projectName a, useRouter = useRouter a, installNow = False\<rparr>\<close>
  by (simp_all add: packageJson_def dependencies_def indexHtml_def mainJsx_def appJsx_def)

lemma scaffold_Done:
  assumes \<open>scaffold e p a w = (Done, w')\<close>
  shows \<open>files w' = files w ++ generated_files (path_join e) p (projectName a) (useRouter a)\<close>
    and \<open>dirs w' = dirs w \<union> made_dirs e (project_targets e p a)\<close>
    and \<open>execs w' = execs w\<close>
proof -
  from assms obtain v1 v2 v3 where
    s: \<open>createProjectStructure e p a w = (Done, v1)\<close> \<open>createPackageJson e p a v1 = (Done, v2)\<close>
      \<open>createConfigFiles e p v2 = (Done, v3)\<close> \<open>createSourceFiles e p a v3 = (Done, w')\<close>
    by (auto simp: scaffold_def scaffold_steps_def and_then_Done skip_eq)
  note a = createProjectStructure_Done [OF s(1)] and b = createPackageJson_Done [OF s(2)]
    and c = createConfigFiles_Done [OF s(3)] and d = createSourceFiles_Done [OF s(4)]
  show \<open>files w' = files w ++ generated_files (path_join e) p (projectName a) (useRouter a)\<close>
    unfolding d(1) c(1) b(1) a(2) generated_files_def Let_def
    by (simp add: templates_answers [symmetric])
  show \<open>dirs w' = dirs w \<union> made_dirs e (project_targets e p a)\<close>
    by (simp add: a b c d)
  show \<open>execs w' = execs w\<close>
    by (simp add: a b c d)
qed

section \<open>What a step can touch\<close>





lemma withinD: \<open>within D F f \<Longrightarrow> f w = (r, w') \<Longrightarrow> grows D F w w'\<close>
  unfolding within_def by (metis snd_conv)











lemma within_createProjectStructure:
  \<open>within (made_dirs e (project_targets e p a)) {} (createProjectStructure e p a)\<close>
  unfolding within_def grows_def createProjectStructure_result
  using takeWhile_project_ways [of _ e p a] by auto





section \<open>What a step can write\<close>












lemmas scaffold_simps =
  scaffold_def scaffold_steps_def createProjectStructure_def createPackageJson_def
  createConfigFiles_def createSourceFiles_def



section \<open>The install and the git commands\<close>

lemma initializeGit_result:
  \<open>fst (initializeGit e p w) = Done\<close>
  \<open>execs (snd (initializeGit e p w)) = execs w @ git_attempts e p\<close>
  \<open>console (snd (initializeGit e p w)) =
     console w @ [Spin ''Initializing git repository...'',
       if git_fails e p then Warn ''Could not initialize git (this is okay!)''
       else Succeed ''Git repository initialized'']\<close>
  by (simp_all add: initializeGit_def and_then_def try_catch_def execAsync_def print_def skip_def
      Let_def git_attempts_def git_fails_def)

lemma installDependencies_result:
  \<open>fst (installDependencies e p w) =
     (if npm_fails e p then Threw (Failed (Run ''npm install'' p)) else Done)\<close>
  \<open>execs (snd (installDependencies e p w)) = execs w @ [(''npm install'', p)]\<close>
  \<open>console (snd (installDependencies e p w)) =
     console w @ [Spin ''Installing dependencies (this may take a minute)...'',
       if npm_fails e p then Fail ''Failed to install dependencies''
       else Succeed ''Dependencies installed'']\<close>
  by (simp_all add: installDependencies_def and_then_def try_catch_def execAsync_def print_def
      skip_def throw_def Let_def npm_fails_def)

lemma finish_result:
  \<open>fst (finish e p a w) =
     (if installNow a \<and> npm_fails e p then Threw (Failed (Run ''npm install'' p)) else Done)\<close>
  \<open>execs (snd (finish e p a w)) =
     execs w @ (if installNow a then [(''npm install'', p)] else []) @
     (if installNow a \<and> npm_fails e p then [] else git_attempts e p)\<close>
  \<open>console (snd (finish e p a w)) =
     console w @
     (if installNow a then
        [Spin ''Installing dependencies (this may take a minute)...'',
         if npm_fails e p then Fail ''Failed to install dependencies''
         else Succeed ''Dependencies installed'']
      else []) @
     (if installNow a \<and> npm_fails e p then []
      else [Spin ''Initializing git repository...'',
            if git_fails e p then Warn ''Could not initialize git (this is okay!)''
            else Succeed ''Git repository initialized'',
            Log success_message,
            Log ''To get started:\<newline>'',
            Log (''  cd '' @ projectName a)] @
           (if installNow a then [] else [Log ''  npm install'']) @
           [Log ''  npm run dev\<newline>'', Log ''Happy coding!!!''])\<close>
  by (simp_all add: finish_def and_then_cases installDependencies_result initializeGit_result
      print_def skip_def)


lemma disk_of_print [simp]: \<open>disk_of (snd (print l w)) = disk_of w\<close>
  by (simp add: disk_of_def)

lemma disk_of_console [simp]: \<open>disk_of (w\<lparr>console := c\<rparr>) = disk_of w\<close>
  by (simp add: disk_of_def)







section \<open>The generated entry script\<close>

lemma mainJsx_with_router:
  \<open>useRouter a \<Longrightarrow> mainJsx a =
     ''import { StrictMode } from 'react'\<newline>'' @
     ''import { createRoot } from 'react-dom/client'\<newline>'' @
     ''import { BrowserRouter } from 'react-router-dom'\<newline>'' @
     ''import './styles/index.css'\<newline>'' @
     ''import App from './App.jsx'\<newline>'' @
     ''\<newline>'' @
     ''createRoot(document.getElementById('root')).render(\<newline>'' @
     ''  <StrictMode>\<newline>'' @
     ''    <BrowserRouter>\<newline>'' @
     ''      <App />\<newline>'' @
     ''    </BrowserRouter>\<newline>'' @
     ''  </StrictMode>,\<newline>'' @
     '')\<newline>''\<close>
  by (simp add: mainJsx_def router_import_def router_element_def)

lemma mainJsx_without_router:
  \<open>\<not> useRouter a \<Longrightarrow> mainJsx a =
     ''import { StrictMode } from 'react'\<newline>'' @
     ''import { createRoot } from 'react-dom/client'\<newline>'' @
     ''\<newline>'' @
     ''import './styles/index.css'\<newline>'' @
     ''import App from './App.jsx'\<newline>'' @
     ''\<newline>'' @
     ''createRoot(document.getElementById('root')).render(\<newline>'' @
     ''  <StrictMode>\<newline>'' @
     ''    <App />\<newline>'' @
     ''  </StrictMode>,\<newline>'' @
     '')\<newline>''\<close>
  by (simp add: mainJsx_def)

section \<open>Runs on the concrete machine\<close>

lemma machine_sel:
  \<open>path_join (machine broken) = slash_join\<close>
  \<open>ancestors (machine broken) = slash_ancestors\<close>
  \<open>refuses (machine broken) x = (x \<in> set broken)\<close>
  by (simp_all add: machine_def)

lemma app_answers_sel:
  \<open>projectName (app_answers r i) = ''app''\<close> \<open>useRouter (app_answers r i) = r\<close>
  \<open>installNow (app_answers r i) = i\<close>
  by (simp_all add: app_answers_def)

lemmas run_simps =
  and_then_cases try_catch_cases promise_all_cases
  ensureDir_def way_to_def writeFile_def execAsync_def print_def skip_def throw_def Let_def
  machine_def slash_join_def slash_ancestors_def work_disk_def app_answers_def

lemmas prompt_simps =
  validate_projectName_iff validate_projectLocation_iff plain_name_def name_char_def code_unit_def
  existsSync_def replace_backslashes_def Let_def print_def
  machine_def slash_join_def work_disk_def



lemma decliner_names:
  \<open>name_loop (machine []) (default_name None) ''/work'' [''taken'', ''Not OK'', ''app'']
      (snd (print (Log ''Welcome to Joji App Creator!'') work_disk))
   = (Some (''app'', ''/work/app''),
      work_disk\<lparr>console := [Log ''Welcome to Joji App Creator!'', Log (exists_message ''taken'')]\<rparr>)\<close>
  apply (subst name_loop.simps, simp add: prompt_simps)
  apply (subst name_loop.simps, simp add: prompt_simps)
  done

lemma decliner_action:
  \<open>action (machine []) None decliner work_disk =
     Some (and_then (scaffold (machine []) ''/work/app'' (app_answers False False))
             (finish (machine []) ''/work/app'' (app_answers False False))
             (work_disk\<lparr>console := [Log ''Welcome to Joji App Creator!'', Log (exists_message ''taken'')]\<rparr>))\<close>
proof -
  have l: \<open>ask (validate_projectLocation (snd (print (Log ''Welcome to Joji App Creator!'') work_disk)))
      default_location (location_lines decliner) = Some (''/work'', [])\<close>
    by (simp add: decliner_def prompt_simps)
  have n: \<open>replace_backslashes ''/work'' = ''/work''\<close>
    by (simp add: replace_backslashes_def)
  show ?thesis
    unfolding action_def Let_def l option.case prod.case n
    by (simp add: decliner_def decliner_names [unfolded print_def, simplified] print_def app_answers_def)
qed

lemma decliner_scaffold:
  \<open>fst (scaffold (machine []) ''/work/app'' (app_answers False False)
      (work_disk\<lparr>console := [Log ''Welcome to Joji App Creator!'', Log (exists_message ''taken'')]\<rparr>)) = Done\<close>
  by (simp add: scaffold_simps run_simps)






lemma nests_machine: \<open>nests (machine broken) ''/work/app''\<close>
  by (simp add: nests_def machine_def slash_join_def slash_ancestors_def)

lemma structure_examples:
  \<open>fst (createProjectStructure (machine []) ''/work/app'' (app_answers r False) work_disk) = Done\<close>
  \<open>dirs (snd (createProjectStructure (machine []) ''/work/app'' (app_answers False False) work_disk)) =
     {''/work'', ''/work/taken'', ''/work/app'', ''/work/app/src'', ''/work/app/src/components'',
      ''/work/app/src/assets'', ''/work/app/src/styles'', ''/work/app/public''}\<close>
  \<open>dirs (snd (createProjectStructure (machine []) ''/work/deep/app'' (app_answers False False) work_disk)) =
     {''/work'', ''/work/taken'', ''/work/deep'', ''/work/deep/app'', ''/work/deep/app/src'',
      ''/work/deep/app/src/components'', ''/work/deep/app/src/assets'', ''/work/deep/app/src/styles'',
      ''/work/deep/app/public''}\<close>
  \<open>fst (createProjectStructure (machine []) ''/work/notes.txt/app'' (app_answers False False) work_disk) =
     Threw (Failed (MkDir ''/work/notes.txt''))\<close>
  \<open>fst (createProjectStructure (machine [MkDir ''/work/app/src/assets'']) ''/work/app''
      (app_answers True False) work_disk) = Threw (Failed (MkDir ''/work/app/src/assets''))\<close>
  \<open>dirs (snd (createProjectStructure (machine [MkDir ''/work/app/src/assets'']) ''/work/app''
      (app_answers True False) work_disk)) =
     {''/work'', ''/work/taken'', ''/work/app'', ''/work/app/src'', ''/work/app/src/components''}\<close>
  \<open>fst (createProjectStructure (machine [MkDir ''/work/deep/app'']) ''/work/deep/app''
      (app_answers False False) work_disk) = Threw (Failed (MkDir ''/work/deep/app''))\<close>
  \<open>dirs (snd (createProjectStructure (machine [MkDir ''/work/deep/app'']) ''/work/deep/app''
      (app_answers False False) work_disk)) = {''/work'', ''/work/taken'', ''/work/deep''}\<close>
  by (simp_all add: createProjectStructure_def run_simps insert_commute)


lemma validate_projectName_examples:
  \<open>validate_projectName ''my-react-app'' = Accepted\<close>
  \<open>validate_projectName ''-_9z'' = Accepted\<close>
  \<open>validate_projectName ''My App'' = Rejected projectName_message\<close>
  \<open>validate_projectName '''' = Rejected projectName_message\<close>
  \<open>validate_projectName ''app\<newline>'' = Rejected projectName_message\<close>
  by (simp_all add: validate_projectName_def test_projectName_regex plain_name_def name_char_def
      code_unit_def)

lemma packageJson_example:
  \<open>stringify (packageJson (app_answers True False)) =
     ''{\<newline>'' @
     ''  "name": "app",\<newline>'' @
     ''  "private": true,\<newline>'' @
     ''  "version": "0.1.0",\<newline>'' @
     ''  "type": "module",\<newline>'' @
     ''  "scripts": {\<newline>'' @
     ''    "dev": "vite",\<newline>'' @
     ''    "build": "vite build",\<newline>'' @
     ''    "preview": "vite preview"\<newline>'' @
     ''  },\<newline>'' @
     ''  "dependencies": {\<newline>'' @
     ''    "react": "^18.3.1",\<newline>'' @
     ''    "react-dom": "^18.3.1",\<newline>'' @
     ''    "react-router-dom": "^6.26.0"\<newline>'' @
     ''  },\<newline>'' @
     ''  "devDependencies": {\<newline>'' @
     ''    "@vitejs/plugin-react": "^4.3.1",\<newline>'' @
     ''    "autoprefixer": "^10.4.20",\<newline>'' @
     ''    "postcss": "^8.4.41",\<newline>'' @
     ''    "tailwindcss": "^3.4.10",\<newline>'' @
     ''    "vite": "^5.4.1"\<newline>'' @
     ''  }\<newline>'' @
     ''}''\<close>
  by (simp add: stringify_def packageJson_def dependencies_def devDependencies_def app_answers_def
      quote_def escape_char_def code_unit_def)

section \<open>The claims\<close>

text \<open>
  C1. The validator of the project-name prompt accepts an input exactly when it matches
  \<^verbatim>\<open>^[a-z0-9-_]+$\<close>, that is, when it is a non-empty string of lowercase letters, digits,
  hyphens and underscores; for every other input it returns its error message.
\<close>

theorem validate_projectName_correct:
  \<open>validate_projectName input =
     (if input \<noteq> [] \<and> list_all name_char input then Accepted else Rejected projectName_message)\<close>
  by (simp add: validate_projectName_def test_projectName_regex plain_name_def)

text \<open>
  C2. When the location joined with the entered name exists, the loop prints its message
  and asks again with the remaining input. When the loop returns a name and a path, the
  path is the location joined with the name, it does not exist in the world the loop
  leaves, the name is an accepted one, and the loop has not touched the disk. Every run of
  the command that gets past the prompts runs the scaffolding steps at such a path, from a
  world where that path does not exist and whose disk is the one the command started with.
\<close>

theorem name_loop_fresh_path:
  \<open>(validate_projectName (if l = [] then d else l) = Accepted
      \<and> existsSync (path_join e loc (if l = [] then d else l)) w
      \<longrightarrow> name_loop e d loc (l # ls) w =
          name_loop e d loc ls (snd (print (Log (exists_message (if l = [] then d else l))) w)))
   \<and> (name_loop e d loc ns w2 = (Some (name, p), w')
      \<longrightarrow> p = path_join e loc name \<and> \<not> existsSync p w' \<and> validate_projectName name = Accepted
          \<and> dirs w' = dirs w2 \<and> files w' = files w2)
   \<and> (action e arg u w0 = Some (r, v)
      \<longrightarrow> (\<exists>location name w1.
            \<not> existsSync (path_join e (replace_backslashes location) name) w1
            \<and> validate_projectName name = Accepted
            \<and> dirs w1 = dirs w0 \<and> files w1 = files w0
            \<and> (r, v) =
                and_then
                  (scaffold e (path_join e (replace_backslashes location) name)
                     \<lparr>projectLocation = location, projectName = name,
                      useRouter = router_answer u, installNow = install_answer u\<rparr>)
                  (finish e (path_join e (replace_backslashes location) name)
                     \<lparr>projectLocation = location, projectName = name,
                      useRouter = router_answer u, installNow = install_answer u\<rparr>) w1))\<close>
  using name_loop_again [of l d e loc w ls] name_loop_exit [of e d loc ns w2 name p w']
    action_runs [of e arg u w0 r v]
  by blast

text \<open>
  On the concrete machine the name \<^verbatim>\<open>taken\<close> is accepted by the validator but names an
  existing directory, so the loop asks again and returns \<^verbatim>\<open>app\<close>.
\<close>

theorem name_loop_fresh_path_witness:
  \<open>validate_projectName ''taken'' = Accepted
   \<and> existsSync ''/work/taken'' work_disk
   \<and> name_loop (machine []) ''my-react-app'' ''/work'' [''taken'', ''app''] work_disk =
       name_loop (machine []) ''my-react-app'' ''/work'' [''app'']
         (snd (print (Log (exists_message ''taken'')) work_disk))
   \<and> fst (name_loop (machine []) ''my-react-app'' ''/work'' [''taken'', ''app''] work_disk) =
       Some (''app'', ''/work/app'')
   \<and> \<not> existsSync ''/work/app''
         (snd (name_loop (machine []) ''my-react-app'' ''/work'' [''taken'', ''app''] work_disk))
   \<and> dirs (snd (name_loop (machine []) ''my-react-app'' ''/work'' [''taken'', ''app''] work_disk)) =
       dirs work_disk
   \<and> (\<exists>x. action (machine []) None decliner work_disk = Some x)
   \<and> (\<exists>location name w1.
        \<not> existsSync (slash_join (replace_backslashes location) name) w1
        \<and> dirs w1 = dirs work_disk \<and> files w1 = files work_disk
        \<and> the (action (machine []) None decliner work_disk) =
            and_then
              (scaffold (machine []) (slash_join (replace_backslashes location) name)
                 \<lparr>projectLocation = location, projectName = name,
                  useRouter = False, installNow = False\<rparr>)
              (finish (machine []) (slash_join (replace_backslashes location) name)
                 \<lparr>projectLocation = location, projectName = name,
                  useRouter = False, installNow = False\<rparr>) w1)\<close>
proof -
  let ?m = \<open>machine []\<close> and ?d = \<open>''my-react-app''\<close>
  let ?run = \<open>name_loop ?m ?d ''/work'' [''taken'', ''app''] work_disk\<close>
  have v: \<open>validate_projectName ''taken'' = Accepted\<close>
    by (simp add: prompt_simps)
  have x: \<open>existsSync ''/work/taken'' work_disk\<close>
    by (simp add: prompt_simps)
  have again: \<open>?run = name_loop ?m ?d ''/work'' [''app''] (snd (print (Log (exists_message ''taken'')) work_disk))\<close>
    using name_loop_fresh_path [where l = \<open>''taken''\<close> and d = ?d and e = ?m and loc = \<open>''/work''\<close>
        and w = work_disk and ls = \<open>[''app'']\<close>] v x
    by (simp add: machine_sel slash_join_def)
  have r: \<open>fst ?run = Some (''app'', ''/work/app'')\<close>
    unfolding again by (subst name_loop.simps) (simp add: prompt_simps)
  then have r': \<open>?run = (Some (''app'', ''/work/app''), snd ?run)\<close>
    by (metis prod.collapse)
  have fresh: \<open>\<not> existsSync ''/work/app'' (snd ?run) \<and> dirs (snd ?run) = dirs work_disk\<close>
    using name_loop_fresh_path [where e = ?m and d = ?d and loc = \<open>''/work''\<close> and ns = \<open>[''taken'', ''app'']\<close>
        and ?w2.0 = work_disk and name = \<open>''app''\<close> and p = \<open>''/work/app''\<close> and w' = \<open>snd ?run\<close>,
        THEN conjunct2, THEN conjunct1] r'
    by blast
  obtain r0 v0 where a: \<open>action ?m None decliner work_disk = Some (r0, v0)\<close>
    unfolding decliner_action by (metis prod.collapse)
  from name_loop_fresh_path [where e = ?m and arg = None and u = decliner and ?w0.0 = work_disk
        and r = r0 and v = v0, THEN conjunct2, THEN conjunct2] a
  obtain location name w1 where
    b: \<open>\<not> existsSync (path_join ?m (replace_backslashes location) name) w1\<close>
      \<open>dirs w1 = dirs work_disk\<close> \<open>files w1 = files work_disk\<close>
      \<open>(r0, v0) =
        and_then
          (scaffold ?m (path_join ?m (replace_backslashes location) name)
             \<lparr>projectLocation = location, projectName = name,
              useRouter = router_answer decliner, installNow = install_answer decliner\<rparr>)
          (finish ?m (path_join ?m (replace_backslashes location) name)
             \<lparr>projectLocation = location, projectName = name,
              useRouter = router_answer decliner, installNow = install_answer decliner\<rparr>) w1\<close>
    by blast
  have u: \<open>router_answer decliner = False\<close> \<open>install_answer decliner = False\<close>
    by (simp_all add: decliner_def)
  have act: \<open>\<exists>location name w1.
        \<not> existsSync (slash_join (replace_backslashes location) name) w1
        \<and> dirs w1 = dirs work_disk \<and> files w1 = files work_disk
        \<and> the (action ?m None decliner work_disk) =
            and_then
              (scaffold ?m (slash_join (replace_backslashes location) name)
                 \<lparr>projectLocation = location, projectName = name,
                  useRouter = False, installNow = False\<rparr>)
              (finish ?m (slash_join (replace_backslashes location) name)
                 \<lparr>projectLocation = location, projectName = name,
                  useRouter = False, installNow = False\<rparr>) w1\<close>
    using b unfolding a option.sel machine_sel u
    by (intro exI [of _ location] exI [of _ name] exI [of _ w1]) simp
  from v x again r fresh a act show ?thesis
    by blast
qed

text \<open>
  C3. \<^verbatim>\<open>createPackageJson\<close> writes \<^verbatim>\<open>JSON.stringify\<close> of the object \<open>packageJson\<close> to
  \<^verbatim>\<open>package.json\<close> under the project path (or fails on that one write). In that object
  \<^verbatim>\<open>name\<close> is the answered project name, \<^verbatim>\<open>private\<close> is true, \<^verbatim>\<open>version\<close> is 0.1.0, the
  dependencies hold react ^18.3.1 and react-dom ^18.3.1, and react-router-dom ^6.26.0
  exactly when the router was chosen; the devDependencies are the five fixed ones. The
  object is the same whatever the location and the install choice are.
\<close>

theorem packageJson_content:
  \<open>createPackageJson e p a w =
     (if refuses e (WriteFile (path_join e p ''package.json'')) \<or> path_join e p ''package.json'' \<in> dirs w
      then (Threw (Failed (WriteFile (path_join e p ''package.json''))),
            w\<lparr>console := console w @ [Spin ''Creating package.json...'', Fail ''Failed to create package.json'']\<rparr>)
      else (Done,
            w\<lparr>files := (files w)(path_join e p ''package.json'' \<mapsto> stringify (packageJson a)),
              console := console w @ [Spin ''Creating package.json...'', Succeed ''package.json created'']\<rparr>))
   \<and> json_member (packageJson a) ''name'' = Some (JString (projectName a))
   \<and> json_member (packageJson a) ''private'' = Some (JBool True)
   \<and> json_member (packageJson a) ''version'' = Some (JString ''0.1.0'')
   \<and> json_member (packageJson a) ''dependencies'' = Some (JObject (dependencies a))
   \<and> map_of (dependencies a) ''react'' = Some (JString ''^18.3.1'')
   \<and> map_of (dependencies a) ''react-dom'' = Some (JString ''^18.3.1'')
   \<and> map_of (dependencies a) ''react-router-dom'' = (if useRouter a then Some (JString ''^6.26.0'') else None)
   \<and> (''react-router-dom'' \<in> fst ` set (dependencies a) \<longleftrightarrow> useRouter a)
   \<and> json_member (packageJson a) ''devDependencies'' =
       Some (JObject
         [(''@vitejs/plugin-react'', JString ''^4.3.1''),
          (''autoprefixer'', JString ''^10.4.20''),
          (''postcss'', JString ''^8.4.41''),
          (''tailwindcss'', JString ''^3.4.10''),
          (''vite'', JString ''^5.4.1'')])
   \<and> packageJson a =
       packageJson \<lparr>projectLocation = anyLocation, projectName = projectName a,
                    useRouter = useRouter a, installNow = anyChoice\<rparr>\<close>
  unfolding createPackageJson_eq
  by (simp add: packageJson_def dependencies_def devDependencies_def json_member_def)

text \<open>
  C4. The generated \<^verbatim>\<open>src/main.jsx\<close> has the line that imports \<^verbatim>\<open>BrowserRouter\<close> from
  \<^verbatim>\<open>react-router-dom\<close>, and the \<^verbatim>\<open>App\<close> element wrapped in a \<^verbatim>\<open>BrowserRouter\<close> element,
  exactly when the router was chosen. When it was declined neither \<^verbatim>\<open>BrowserRouter\<close> nor
  \<^verbatim>\<open>react-router-dom\<close> occurs in the file, and the line inside \<^verbatim>\<open>StrictMode\<close> is the plain
  \<^verbatim>\<open><App />\<close>. No other answer has a part in the file. This text is what
  \<^verbatim>\<open>createSourceFiles\<close> writes: the step completes exactly when none of its four writes
  fails, and then \<^verbatim>\<open>src/main.jsx\<close> under the project path holds \<open>mainJsx a\<close>, beside the
  three other source files.
\<close>

theorem mainJsx_router:
  \<open>(router_import \<in> set (split_lines (mainJsx a)) \<longleftrightarrow> useRouter a)
   \<and> (sublist router_element (mainJsx a) \<longleftrightarrow> useRouter a)
   \<and> (sublist ''BrowserRouter'' (mainJsx a) \<longleftrightarrow> useRouter a)
   \<and> (sublist ''react-router-dom'' (mainJsx a) \<longleftrightarrow> useRouter a)
   \<and> (''    <App />'' \<in> set (split_lines (mainJsx a)) \<longleftrightarrow> \<not> useRouter a)
   \<and> mainJsx a = mainJsx \<lparr>projectLocation = anyLocation, projectName = anyName,
                    useRouter = useRouter a, installNow = anyChoice\<rparr>
   \<and> (fst (createSourceFiles e p a w) = Done \<longleftrightarrow>
        list_all (\<lambda>q. \<not> refuses e (WriteFile q) \<and> q \<notin> dirs w)
          [path_join e p ''index.html'', path_join e p ''src/main.jsx'',
           path_join e p ''src/App.jsx'', path_join e p ''src/styles/index.css''])
   \<and> (createSourceFiles e p a w = (Done, w') \<longrightarrow>
        files w' = (files w)
          (path_join e p ''index.html'' \<mapsto> indexHtml a,
           path_join e p ''src/main.jsx'' \<mapsto> mainJsx a,
           path_join e p ''src/App.jsx'' \<mapsto> appJsx a,
           path_join e p ''src/styles/index.css'' \<mapsto> indexCss))
   \<and> (createSourceFiles e p a w = (Done, w')
        \<and> path_join e p ''src/main.jsx'' \<noteq> path_join e p ''src/App.jsx''
        \<and> path_join e p ''src/main.jsx'' \<noteq> path_join e p ''src/styles/index.css''
        \<longrightarrow> files w' (path_join e p ''src/main.jsx'') = Some (mainJsx a))\<close>
proof -
  have script: \<open>(router_import \<in> set (split_lines (mainJsx a)) \<longleftrightarrow> useRouter a)
   \<and> (sublist router_element (mainJsx a) \<longleftrightarrow> useRouter a)
   \<and> (sublist ''BrowserRouter'' (mainJsx a) \<longleftrightarrow> useRouter a)
   \<and> (sublist ''react-router-dom'' (mainJsx a) \<longleftrightarrow> useRouter a)
   \<and> (''    <App />'' \<in> set (split_lines (mainJsx a)) \<longleftrightarrow> \<not> useRouter a)
   \<and> mainJsx a = mainJsx \<lparr>projectLocation = anyLocation, projectName = anyName,
                    useRouter = useRouter a, installNow = anyChoice\<rparr>\<close>
  proof (cases \<open>useRouter a\<close>)
    case True
    show ?thesis
      unfolding mainJsx_with_router [OF True]
      by (simp add: True router_import_def router_element_def sublist_code mainJsx_def)
  next
    case False
    show ?thesis
      unfolding mainJsx_without_router [OF False]
      by (simp add: False router_import_def router_element_def sublist_code mainJsx_def)
  qed
  have completes: \<open>fst (createSourceFiles e p a w) = Done \<longleftrightarrow>
        list_all (\<lambda>q. \<not> refuses e (WriteFile q) \<and> q \<notin> dirs w)
          [path_join e p ''index.html'', path_join e p ''src/main.jsx'',
           path_join e p ''src/App.jsx'', path_join e p ''src/styles/index.css'']\<close>
    unfolding createSourceFiles_completes by (simp add: source_names_def)
  have written: \<open>files w' = (files w)
          (path_join e p ''index.html'' \<mapsto> indexHtml a,
           path_join e p ''src/main.jsx'' \<mapsto> mainJsx a,
           path_join e p ''src/App.jsx'' \<mapsto> appJsx a,
           path_join e p ''src/styles/index.css'' \<mapsto> indexCss)\<close>
    if \<open>createSourceFiles e p a w = (Done, w')\<close>
    using that by (rule createSourceFiles_Done(1))
  have there: \<open>files w' (path_join e p ''src/main.jsx'') = Some (mainJsx a)\<close>
    if \<open>createSourceFiles e p a w = (Done, w')\<close>
      \<open>path_join e p ''src/main.jsx'' \<noteq> path_join e p ''src/App.jsx''\<close>
      \<open>path_join e p ''src/main.jsx'' \<noteq> path_join e p ''src/styles/index.css''\<close>
    unfolding written [OF that(1)] using that(2,3) by simp
  show ?thesis
    apply (intro conjI impI)
            apply (rule script [THEN conjunct1])
           apply (rule script [THEN conjunct2, THEN conjunct1])
          apply (rule script [THEN conjunct2, THEN conjunct2, THEN conjunct1])
         apply (rule script [THEN conjunct2, THEN conjunct2, THEN conjunct2, THEN conjunct1])
        apply (rule script [THEN conjunct2, THEN conjunct2, THEN conjunct2, THEN conjunct2, THEN conjunct1])
       apply (rule script [THEN conjunct2, THEN conjunct2, THEN conjunct2, THEN conjunct2, THEN conjunct2])
      apply (rule completes)
     apply (erule written)
    apply (elim conjE, erule there, assumption, assumption)
    done
qed

text \<open>
  On the concrete machine, after the directories are made, the step completes and
  \<^verbatim>\<open>/work/app/src/main.jsx\<close> holds the script, with the import when the router was chosen
  and without \<^verbatim>\<open>BrowserRouter\<close> when it was not; when that write is refused the step does
  not complete.
\<close>

theorem mainJsx_router_witness:
  \<open>fst (createSourceFiles (machine []) ''/work/app'' (app_answers True False)
        (snd (createProjectStructure (machine []) ''/work/app'' (app_answers True False) work_disk))) = Done
   \<and> files (snd (createSourceFiles (machine []) ''/work/app'' (app_answers True False)
        (snd (createProjectStructure (machine []) ''/work/app'' (app_answers True False) work_disk))))
       ''/work/app/src/main.jsx'' = Some (mainJsx (app_answers True False))
   \<and> router_import \<in> set (split_lines (mainJsx (app_answers True False)))
   \<and> fst (createSourceFiles (machine []) ''/work/app'' (app_answers False False)
        (snd (createProjectStructure (machine []) ''/work/app'' (app_answers False False) work_disk))) = Done
   \<and> files (snd (createSourceFiles (machine []) ''/work/app'' (app_answers False False)
        (snd (createProjectStructure (machine []) ''/work/app'' (app_answers False False) work_disk))))
       ''/work/app/src/main.jsx'' = Some (mainJsx (app_answers False False))
   \<and> \<not> sublist ''BrowserRouter'' (mainJsx (app_answers False False))
   \<and> fst (createSourceFiles (machine [WriteFile ''/work/app/src/main.jsx'']) ''/work/app''
        (app_answers True False)
        (snd (createProjectStructure (machine []) ''/work/app'' (app_answers True False) work_disk))) \<noteq> Done\<close>
proof -
  have run: \<open>fst (createSourceFiles (machine []) ''/work/app'' (app_answers r False)
        (snd (createProjectStructure (machine []) ''/work/app'' (app_answers r False) work_disk))) = Done\<close>
    and there: \<open>files (snd (createSourceFiles (machine []) ''/work/app'' (app_answers r False)
        (snd (createProjectStructure (machine []) ''/work/app'' (app_answers r False) work_disk))))
       ''/work/app/src/main.jsx'' = Some (mainJsx (app_answers r False))\<close> for r
  proof -
    let ?a = \<open>app_answers r False\<close>
    let ?w = \<open>snd (createProjectStructure (machine []) ''/work/app'' ?a work_disk)\<close>
    let ?w' = \<open>snd (createSourceFiles (machine []) ''/work/app'' ?a ?w)\<close>
    note t = mainJsx_router [where a = ?a and e = \<open>machine []\<close> and p = \<open>''/work/app''\<close> and w = ?w and w' = ?w']
    have d: \<open>dirs ?w \<subseteq> {''/work'', ''/work/taken'', ''/work/app'', ''/work/app/src'', ''/work/app/src/components'',
        ''/work/app/src/assets'', ''/work/app/src/styles'', ''/work/app/public'', ''/work/app/src/pages''}\<close>
      unfolding createProjectStructure_result(2)
      by (simp add: project_ways_def way_to_def project_targets_def project_dirs_def creatable_def machine_def
          slash_join_def slash_ancestors_def work_disk_def app_answers_def)
    have n: \<open>list_all (\<lambda>q. \<not> refuses (machine []) (WriteFile q) \<and> q \<notin> dirs ?w)
          [path_join (machine []) ''/work/app'' ''index.html'', path_join (machine []) ''/work/app'' ''src/main.jsx'',
           path_join (machine []) ''/work/app'' ''src/App.jsx'',
           path_join (machine []) ''/work/app'' ''src/styles/index.css'']\<close>
      using d by (auto simp: machine_sel slash_join_def)
    show run: \<open>fst (createSourceFiles (machine []) ''/work/app'' ?a ?w) = Done\<close>
      using t [THEN conjunct2, THEN conjunct2, THEN conjunct2, THEN conjunct2, THEN conjunct2,
          THEN conjunct2, THEN conjunct1] n
      by blast
    then have c: \<open>createSourceFiles (machine []) ''/work/app'' ?a ?w = (Done, ?w')\<close>
      by (metis prod.collapse)
    have ne: \<open>path_join (machine []) ''/work/app'' ''src/main.jsx'' \<noteq> path_join (machine []) ''/work/app'' ''src/App.jsx''\<close>
      \<open>path_join (machine []) ''/work/app'' ''src/main.jsx'' \<noteq> path_join (machine []) ''/work/app'' ''src/styles/index.css''\<close>
      by (simp_all add: machine_sel slash_join_def)
    have \<open>files ?w' (path_join (machine []) ''/work/app'' ''src/main.jsx'') = Some (mainJsx ?a)\<close>
      using t [THEN conjunct2, THEN conjunct2, THEN conjunct2, THEN conjunct2, THEN conjunct2,
          THEN conjunct2, THEN conjunct2, THEN conjunct2] c ne
      by blast
    then show \<open>files ?w' ''/work/app/src/main.jsx'' = Some (mainJsx ?a)\<close>
      by (simp add: machine_sel slash_join_def)
  qed
  have imp: \<open>router_import \<in> set (split_lines (mainJsx (app_answers True False)))\<close>
    using mainJsx_router [where a = \<open>app_answers True False\<close>, THEN conjunct1] by (simp add: app_answers_sel)
  have plain: \<open>\<not> sublist ''BrowserRouter'' (mainJsx (app_answers False False))\<close>
    using mainJsx_router [where a = \<open>app_answers False False\<close>, THEN conjunct2, THEN conjunct2, THEN conjunct1]
    by (simp add: app_answers_sel)
  have refused: \<open>fst (createSourceFiles (machine [WriteFile ''/work/app/src/main.jsx'']) ''/work/app''
        (app_answers True False)
        (snd (createProjectStructure (machine []) ''/work/app'' (app_answers True False) work_disk))) \<noteq> Done\<close>
    using mainJsx_router [where a = \<open>app_answers True False\<close>
        and e = \<open>machine [WriteFile ''/work/app/src/main.jsx'']\<close> and p = \<open>''/work/app''\<close>
        and w = \<open>snd (createProjectStructure (machine []) ''/work/app'' (app_answers True False) work_disk)\<close>,
        THEN conjunct2, THEN conjunct2, THEN conjunct2, THEN conjunct2, THEN conjunct2,
          THEN conjunct2, THEN conjunct1]
    by (simp add: machine_sel slash_join_def)
  from run [of True] there [of True] imp run [of False] there [of False] plain refused
  show ?thesis
    by (intro conjI)
qed

text \<open>
  C5 as stated, that the step creates the directories \<^verbatim>\<open>src\<close>, \<^verbatim>\<open>src/components\<close>,
  \<^verbatim>\<open>src/assets\<close>, \<^verbatim>\<open>src/styles\<close> and \<^verbatim>\<open>public\<close> under the project path and no other,
  fails: the first call of the step is \<^verbatim>\<open>fs.ensureDir(projectPath)\<close>, and the project path
  does not exist when the step starts. On the concrete machine \<^verbatim>\<open>/work/app\<close> is new after
  the step and is none of the listed directories; and at \<^verbatim>\<open>/work/deep/app\<close> the step also
  creates the missing \<^verbatim>\<open>/work/deep\<close>.
\<close>

theorem createProjectStructure_makes_the_project_directory:
  \<open>fst (createProjectStructure (machine []) ''/work/app'' (app_answers False False) work_disk) = Done
   \<and> ''/work/app'' \<notin> dirs work_disk
   \<and> ''/work/app'' \<in>
       dirs (snd (createProjectStructure (machine []) ''/work/app'' (app_answers False False) work_disk))
   \<and> ''/work/app'' \<notin> slash_join ''/work/app'' `
       {''src'', ''src/components'', ''src/assets'', ''src/styles'', ''public'', ''src/pages''}
   \<and> dirs (snd (createProjectStructure (machine []) ''/work/app'' (app_answers False False) work_disk))
       - dirs work_disk
     \<noteq> slash_join ''/work/app'' ` {''src'', ''src/components'', ''src/assets'', ''src/styles'', ''public''}
   \<and> fst (createProjectStructure (machine []) ''/work/deep/app'' (app_answers False False) work_disk) = Done
   \<and> ''/work/deep'' \<notin> dirs work_disk
   \<and> ''/work/deep'' \<in>
       dirs (snd (createProjectStructure (machine []) ''/work/deep/app'' (app_answers False False) work_disk))\<close>
proof -
  have a: \<open>''/work/app'' \<notin> slash_join ''/work/app'' `
       {''src'', ''src/components'', ''src/assets'', ''src/styles'', ''public'', ''src/pages''}\<close>
    by (simp add: slash_join_def)
  have b: \<open>''/work/app'' \<notin> dirs work_disk\<close> \<open>''/work/deep'' \<notin> dirs work_disk\<close>
    by (simp_all add: work_disk_def)
  have c: \<open>''/work/app'' \<in>
       dirs (snd (createProjectStructure (machine []) ''/work/app'' (app_answers False False) work_disk))\<close>
    unfolding structure_examples(2) by simp
  have d: \<open>''/work/deep'' \<in>
       dirs (snd (createProjectStructure (machine []) ''/work/deep/app'' (app_answers False False) work_disk))\<close>
    unfolding structure_examples(3) by simp
  have f: \<open>fst (createProjectStructure (machine []) ''/work/deep/app'' (app_answers False False) work_disk) = Done\<close>
    by (simp add: createProjectStructure_def run_simps)
  from a b(1) c
  have g: \<open>dirs (snd (createProjectStructure (machine []) ''/work/app'' (app_answers False False) work_disk))
       - dirs work_disk
     \<noteq> slash_join ''/work/app'' ` {''src'', ''src/components'', ''src/assets'', ''src/styles'', ''public''}\<close>
    by blast
  from structure_examples(1) [of False] a b c d f g show ?thesis
    by blast
qed

text \<open>
  C5, as the program has it. On a platform that nests the joined names under the project
  path, \<^verbatim>\<open>createProjectStructure\<close> removes no directory and, whatever happens, creates
  none but the project path itself, the directories above it, and under it \<^verbatim>\<open>src\<close>,
  \<^verbatim>\<open>src/components\<close>, \<^verbatim>\<open>src/assets\<close>, \<^verbatim>\<open>src/styles\<close>, \<^verbatim>\<open>public\<close>, and \<^verbatim>\<open>src/pages\<close> when the
  router was chosen; it leaves the files alone. When it completes, the directories are
  exactly the earlier ones and these. On any platform, the step goes through the
  directories on the way to each of its targets, from the top; it fails at the first that
  is a file or that the system refuses to make, and the directories it leaves are the
  earlier ones and those it went through before that one.
\<close>

theorem createProjectStructure_directories:
  assumes \<open>nests e p\<close>
  shows \<open>dirs w \<subseteq> dirs (snd (createProjectStructure e p a w))
   \<and> dirs (snd (createProjectStructure e p a w)) \<subseteq>
       dirs w \<union> set (ancestors e p)
       \<union> {p, path_join e p ''src'', path_join e p ''src/components'',
         path_join e p ''src/assets'', path_join e p ''src/styles'', path_join e p ''public''}
       \<union> (if useRouter a then {path_join e p ''src/pages''} else {})
   \<and> files (snd (createProjectStructure e p a w)) = files w
   \<and> (fst (createProjectStructure e p a w) = Done \<longrightarrow>
       dirs (snd (createProjectStructure e p a w)) =
       dirs w \<union> set (ancestors e p)
       \<union> {p, path_join e p ''src'', path_join e p ''src/components'',
         path_join e p ''src/assets'', path_join e p ''src/styles'', path_join e p ''public''}
       \<union> (if useRouter a then {path_join e p ''src/pages''} else {}))
   \<and> fst (createProjectStructure e p a w) =
       (case find (\<lambda>d. \<not> creatable e w d) (project_ways e p a) of
          None \<Rightarrow> Done | Some d \<Rightarrow> Threw (Failed (MkDir d)))
   \<and> dirs (snd (createProjectStructure e p a w)) =
       dirs w \<union> set (takeWhile (creatable e w) (project_ways e p a))\<close>
proof -
  let ?S = \<open>{p, path_join e p ''src'', path_join e p ''src/components'', path_join e p ''src/assets'',
      path_join e p ''src/styles'', path_join e p ''public''}
     \<union> (if useRouter a then {path_join e p ''src/pages''} else {})\<close>
  let ?w' = \<open>snd (createProjectStructure e p a w)\<close>
  have S: \<open>made_dirs e (project_targets e p a) = set (ancestors e p) \<union> ?S\<close>
    by (rule made_dirs_nested [OF assms])
  have g: \<open>grows (set (ancestors e p) \<union> ?S) {} w ?w'\<close>
    using withinD [OF within_createProjectStructure, of e p a w \<open>fst (createProjectStructure e p a w)\<close> ?w']
    unfolding S by simp
  have 1: \<open>dirs w \<subseteq> dirs ?w'\<close>
    using g unfolding grows_def by blast
  have 2: \<open>dirs ?w' \<subseteq> dirs w \<union> set (ancestors e p)
       \<union> {p, path_join e p ''src'', path_join e p ''src/components'',
         path_join e p ''src/assets'', path_join e p ''src/styles'', path_join e p ''public''}
       \<union> (if useRouter a then {path_join e p ''src/pages''} else {})\<close>
    using g unfolding grows_def by blast
  have 3: \<open>dirs ?w' = dirs w \<union> set (ancestors e p)
       \<union> {p, path_join e p ''src'', path_join e p ''src/components'',
         path_join e p ''src/assets'', path_join e p ''src/styles'', path_join e p ''public''}
       \<union> (if useRouter a then {path_join e p ''src/pages''} else {})\<close>
    if \<open>fst (createProjectStructure e p a w) = Done\<close>
  proof -
    from that have \<open>createProjectStructure e p a w = (Done, ?w')\<close>
      by (metis prod.collapse)
    from createProjectStructure_Done(1) [OF this] show ?thesis
      unfolding S by (simp only: Un_assoc)
  qed
  show ?thesis
    apply (intro conjI impI)
         apply (rule 1)
        apply (rule 2)
       apply (rule createProjectStructure_result(3))
      apply (erule 3)
     apply (rule createProjectStructure_result(1))
    apply (rule createProjectStructure_result(2))
    done
qed

text \<open>
  On the concrete machine the step completes; with the router the nine directories are
  there, without it \<^verbatim>\<open>src/pages\<close> is not; and when \<^verbatim>\<open>src/assets\<close> cannot be made the step
  throws and leaves no directory outside these nine.
\<close>

theorem createProjectStructure_directories_witness:
  \<open>nests (machine []) ''/work/app''
   \<and> fst (createProjectStructure (machine []) ''/work/app'' (app_answers True False) work_disk) = Done
   \<and> dirs (snd (createProjectStructure (machine []) ''/work/app'' (app_answers True False) work_disk)) =
       {''/work'', ''/work/taken'', ''/work/app'', ''/work/app/src'', ''/work/app/src/components'',
        ''/work/app/src/assets'', ''/work/app/src/styles'', ''/work/app/public'',
        ''/work/app/src/pages''}
   \<and> fst (createProjectStructure (machine []) ''/work/app'' (app_answers False False) work_disk) = Done
   \<and> ''/work/app/src/pages'' \<notin>
       dirs (snd (createProjectStructure (machine []) ''/work/app'' (app_answers False False) work_disk))
   \<and> nests (machine [MkDir ''/work/app/src/assets'']) ''/work/app''
   \<and> fst (createProjectStructure (machine [MkDir ''/work/app/src/assets'']) ''/work/app''
        (app_answers True False) work_disk) = Threw (Failed (MkDir ''/work/app/src/assets''))
   \<and> dirs (snd (createProjectStructure (machine [MkDir ''/work/app/src/assets'']) ''/work/app''
        (app_answers True False) work_disk)) \<subseteq>
       {''/work'', ''/work/taken'', ''/work/app'', ''/work/app/src'', ''/work/app/src/components'',
        ''/work/app/src/assets'', ''/work/app/src/styles'', ''/work/app/public'',
        ''/work/app/src/pages''}\<close>
proof -
  let ?nine = \<open>{''/work'', ''/work/taken'', ''/work/app'', ''/work/app/src'', ''/work/app/src/components'',
        ''/work/app/src/assets'', ''/work/app/src/styles'', ''/work/app/public'',
        ''/work/app/src/pages''}\<close>
  let ?m = \<open>machine [MkDir ''/work/app/src/assets'']\<close>
  note t1 = createProjectStructure_directories [OF nests_machine [of \<open>[]\<close>], of work_disk \<open>app_answers True False\<close>]
  note t2 = createProjectStructure_directories [OF nests_machine [of \<open>[]\<close>], of work_disk \<open>app_answers False False\<close>]
  note t3 = createProjectStructure_directories [OF nests_machine [of \<open>[MkDir ''/work/app/src/assets'']\<close>], of
      work_disk \<open>app_answers True False\<close>]
  have r1: \<open>dirs work_disk \<union> set (ancestors (machine []) ''/work/app'')
       \<union> {''/work/app'', path_join (machine []) ''/work/app'' ''src'',
          path_join (machine []) ''/work/app'' ''src/components'',
          path_join (machine []) ''/work/app'' ''src/assets'',
          path_join (machine []) ''/work/app'' ''src/styles'',
          path_join (machine []) ''/work/app'' ''public''}
       \<union> (if useRouter (app_answers True False) then {path_join (machine []) ''/work/app'' ''src/pages''} else {})
      = ?nine\<close>
    by (simp add: machine_def slash_join_def slash_ancestors_def work_disk_def app_answers_def
        insert_commute)
  have r2: \<open>''/work/app/src/pages'' \<notin> dirs work_disk \<union> set (ancestors (machine []) ''/work/app'')
       \<union> {''/work/app'', path_join (machine []) ''/work/app'' ''src'',
          path_join (machine []) ''/work/app'' ''src/components'',
          path_join (machine []) ''/work/app'' ''src/assets'',
          path_join (machine []) ''/work/app'' ''src/styles'',
          path_join (machine []) ''/work/app'' ''public''}
       \<union> (if useRouter (app_answers False False) then {path_join (machine []) ''/work/app'' ''src/pages''} else {})\<close>
    by (simp add: machine_def slash_join_def slash_ancestors_def work_disk_def app_answers_def)
  have r3: \<open>dirs work_disk \<union> set (ancestors ?m ''/work/app'')
       \<union> {''/work/app'', path_join ?m ''/work/app'' ''src'',
          path_join ?m ''/work/app'' ''src/components'',
          path_join ?m ''/work/app'' ''src/assets'',
          path_join ?m ''/work/app'' ''src/styles'',
          path_join ?m ''/work/app'' ''public''}
       \<union> (if useRouter (app_answers True False) then {path_join ?m ''/work/app'' ''src/pages''} else {})
      = ?nine\<close>
    by (simp add: machine_def slash_join_def slash_ancestors_def work_disk_def app_answers_def
        insert_commute)
  have 1: \<open>dirs (snd (createProjectStructure (machine []) ''/work/app'' (app_answers True False) work_disk)) =
       ?nine\<close>
    using t1 [THEN conjunct2, THEN conjunct2, THEN conjunct2, THEN conjunct1, THEN mp,
        OF structure_examples(1) [of True]]
    unfolding r1 .
  have 2: \<open>''/work/app/src/pages'' \<notin>
       dirs (snd (createProjectStructure (machine []) ''/work/app'' (app_answers False False) work_disk))\<close>
    using t2 [THEN conjunct2, THEN conjunct1] r2 by blast
  have 3: \<open>dirs (snd (createProjectStructure ?m ''/work/app'' (app_answers True False) work_disk)) \<subseteq> ?nine\<close>
    using t3 [THEN conjunct2, THEN conjunct1] unfolding r3 .
  from nests_machine [of \<open>[]\<close>] nests_machine [of \<open>[MkDir ''/work/app/src/assets'']\<close>]
    structure_examples(1) [of True] structure_examples(1) [of False] structure_examples(5) 1 2 3
  show ?thesis
    by (intro conjI)
qed

text \<open>
  C6, as the program has it. The install command is handed to the shell exactly when the
  user chose to install now. The git commands depend on no choice of the user: unless a
  chosen install has failed, \<^verbatim>\<open>git init\<close> is always run, \<^verbatim>\<open>git add .\<close> after it if it
  succeeded, and the commit after that if the staging succeeded.
\<close>

theorem git_commands_unconditional:
  \<open>execs (snd (finish e p a w)) =
     execs w @ (if installNow a then [(''npm install'', p)] else []) @
     (if installNow a \<and> refuses e (Run ''npm install'' p) then []
      else (''git init'', p) #
        (if refuses e (Run ''git init'' p) then []
         else (''git add .'', p) #
           (if refuses e (Run ''git add .'' p) then [] else [(git_commit, p)])))\<close>
  by (simp add: finish_result git_attempts_def npm_fails_def)

text \<open>
  C6 as stated, that the git commands are run only upon a choice of the user as the
  install is, fails: a user who declines the router and the install still gets the three
  git commands.
\<close>

theorem git_commands_without_any_choice:
  \<open>\<not> router_answer decliner \<and> \<not> install_answer decliner
   \<and> map_option (\<lambda>r. (fst r, execs (snd r))) (action (machine []) None decliner work_disk) =
      Some (Done,
        [(''git init'', ''/work/app''), (''git add .'', ''/work/app''), (git_commit, ''/work/app'')])\<close>
proof -
  let ?w = \<open>work_disk\<lparr>console := [Log ''Welcome to Joji App Creator!'', Log (exists_message ''taken'')]\<rparr>\<close>
  let ?s = \<open>scaffold (machine []) ''/work/app'' (app_answers False False) ?w\<close>
  have s: \<open>?s = (Done, snd ?s)\<close>
    using decliner_scaffold by (metis prod.collapse)
  have e: \<open>execs (snd ?s) = []\<close>
    using scaffold_Done(3) [OF s] by (simp add: work_disk_def)
  show ?thesis
    unfolding decliner_action
    by (simp add: and_then_cases decliner_scaffold finish_result e git_attempts_def npm_fails_def
        machine_sel app_answers_sel decliner_def)
qed






text \<open>
  C9. The validator of the location prompt replaces the backslashes and accepts the input
  exactly when \<^verbatim>\<open>fs.existsSync\<close> is true of the result. That is true of a regular file
  too: on the concrete disk \<^verbatim>\<open>/work/notes.txt\<close> is a file and no directory, and the
  validator accepts it, with slashes or with backslashes, although its message and the
  use of the answer ask for a directory.
\<close>

theorem projectLocation_accepts_a_file:
  \<open>(validate_projectLocation w input = Accepted \<longleftrightarrow> existsSync (replace_backslashes input) w)
   \<and> ''/work/notes.txt'' \<notin> dirs work_disk
   \<and> files work_disk ''/work/notes.txt'' = Some ''to do''
   \<and> validate_projectLocation work_disk ''/work/notes.txt'' = Accepted
   \<and> validate_projectLocation work_disk ([CHR 0x5C] @ ''work'' @ [CHR 0x5C] @ ''notes.txt'') = Accepted
   \<and> validate_projectLocation work_disk ''/work/nowhere'' = Rejected projectLocation_message
   \<and> CHR 0x5C \<notin> set (replace_backslashes input)
   \<and> length (replace_backslashes input) = length input\<close>
  by (auto simp: validate_projectLocation_def Let_def existsSync_def replace_backslashes_def work_disk_def)

text \<open>
  C10. \<^verbatim>\<open>initializeGit\<close> never throws: when one of the three git commands fails it prints
  the warning and completes. \<^verbatim>\<open>installDependencies\<close> throws when the install fails.
  So the last part of the command throws exactly when the install was chosen and fails,
  and then the success message is not printed; in every other case it is.
\<close>

theorem git_failure_tolerated_install_failure_fatal:
  \<open>fst (initializeGit e p w) = Done
   \<and> console (snd (initializeGit e p w)) =
       console w @ [Spin ''Initializing git repository...'',
         if refuses e (Run ''git init'' p) \<or> refuses e (Run ''git add .'' p) \<or> refuses e (Run git_commit p)
         then Warn ''Could not initialize git (this is okay!)''
         else Succeed ''Git repository initialized'']
   \<and> fst (installDependencies e p w) =
       (if refuses e (Run ''npm install'' p) then Threw (Failed (Run ''npm install'' p)) else Done)
   \<and> fst (finish e p a w) =
       (if installNow a \<and> refuses e (Run ''npm install'' p)
        then Threw (Failed (Run ''npm install'' p)) else Done)
   \<and> (Log success_message \<in> set (console (snd (finish e p a w)))) =
       (if installNow a \<and> refuses e (Run ''npm install'' p)
        then Log success_message \<in> set (console w) else True)
   \<and> fst (and_then (scaffold e p a) (finish e p a) w) =
       (if fst (scaffold e p a w) = Done
        then (if installNow a \<and> refuses e (Run ''npm install'' p)
              then Threw (Failed (Run ''npm install'' p)) else Done)
        else fst (scaffold e p a w))\<close>
  by (simp add: initializeGit_result installDependencies_result finish_result git_fails_def
      npm_fails_def and_then_fst)

end
